theory Spec2Isabelle
  imports Main "HOL-Library.Sublist"
begin

section \<open>Go library functions the plugin calls\<close>

text \<open>
  Go strings are byte sequences: \<open>string\<close>. \<^verbatim>\<open>strings.HasSuffix(s, suffix)\<close> is
  \<^verbatim>\<open>len(s) >= len(suffix) && s[len(s)-len(suffix):] == suffix\<close>.
\<close>

definition HasSuffix :: "string \<Rightarrow> string \<Rightarrow> bool" where
  "HasSuffix s suf = (length suf \<le> length s \<and> drop (length s - length suf) s = suf)"

text \<open>
  The verb \<^verbatim>\<open>%d\<close> of \<^verbatim>\<open>fmt\<close>: the decimal numeral of an integer, a minus sign first
  when it is negative, no leading zero.
\<close>

definition digit_char :: "nat \<Rightarrow> char" where
  "digit_char n = ''0123456789'' ! n"

fun digits :: "nat \<Rightarrow> string" where
  "digits n = (if n < 10 then [digit_char n] else digits (n div 10) @ [digit_char (n mod 10)])"

declare digits.simps [simp del]

definition fmt_d :: "int \<Rightarrow> string" where
  "fmt_d i = (if i < 0 then CHR ''-'' # digits (nat (- i)) else digits (nat i))"

text \<open>
  \<^verbatim>\<open>strconv.ParseInt(s, 10, 64)\<close>, with \<^verbatim>\<open>strconv.ParseUint(s, 10, 64)\<close> under it.
  ParseUint walks the bytes: a byte that is not a decimal digit is a syntax error; before
  each digit the accumulator is checked against \<^verbatim>\<open>cutoff = maxUint64/10 + 1\<close>, and the
  addition of the digit is done modulo \<open>2 ^ 64\<close> and checked for wrap-around.
  ParseInt takes one leading sign off, reads the rest unsigned, and checks it against
  \<open>2 ^ 63\<close>; the conversion to int64 and the negation wrap around as the machine's do.
\<close>

datatype NumError = ErrSyntax | ErrRange

definition digit_of :: "char \<Rightarrow> nat option" where
  "digit_of c = (let b = (of_char c :: nat) in if 48 \<le> b \<and> b \<le> 57 then Some (b - 48) else None)"

definition maxUint64 :: nat where
  "maxUint64 = 2 ^ 64 - 1"

fun ParseUint_loop :: "nat \<Rightarrow> string \<Rightarrow> NumError + nat" where
  "ParseUint_loop n [] = Inr n"
| "ParseUint_loop n (c # cs) =
     (case digit_of c of
        None \<Rightarrow> Inl ErrSyntax
      | Some d \<Rightarrow>
          if n \<ge> maxUint64 div 10 + 1 then Inl ErrRange
          else let n10 = n * 10; n1 = (n10 + d) mod 2 ^ 64
               in if n1 < n10 \<or> n1 > maxUint64 then Inl ErrRange
                  else ParseUint_loop n1 cs)"

definition ParseUint :: "string \<Rightarrow> NumError + nat" where
  "ParseUint s = (if s = [] then Inl ErrSyntax else ParseUint_loop 0 s)"

definition int64 :: "nat \<Rightarrow> int" where
  "int64 u = (int u + 2 ^ 63) mod 2 ^ 64 - 2 ^ 63"

definition neg64 :: "int \<Rightarrow> int" where
  "neg64 n = (- n + 2 ^ 63) mod 2 ^ 64 - 2 ^ 63"

definition ParseInt :: "string \<Rightarrow> NumError + int" where
  "ParseInt s =
     (if s = [] then Inl ErrSyntax
      else let neg = (hd s = CHR ''-'');
               s1 = (if hd s = CHR ''+'' then tl s else if hd s = CHR ''-'' then tl s else s)
           in case ParseUint s1 of
                Inl ErrSyntax \<Rightarrow> Inl ErrSyntax
              | Inl ErrRange \<Rightarrow> Inl ErrRange
              | Inr un \<Rightarrow>
                  if \<not> neg \<and> un \<ge> 2 ^ 63 then Inl ErrRange
                  else if neg \<and> un > 2 ^ 63 then Inl ErrRange
                  else Inr (if neg then neg64 (int64 un) else int64 un))"

section \<open>Errors\<close>

text \<open>
  Every error of the plugin is made by \<^verbatim>\<open>fmt.Errorf\<close>; one constructor stands for each
  call site, and \<open>Error\<close> below is the message \<^verbatim>\<open>err.Error()\<close> gives. A library's own
  error is kept as its message. The last two constructors are no error values: they
  stand for a run-time panic, which leaves every caller at once, as an \<open>Inl\<close> does here.
\<close>

datatype error =
    ServerURLMissing
  | UsernameMissing
  | PasswordMissing
  | UnableToConnect error
  | InvalidURL string
  | CreateRequestFailed string
  | RequestFailed string
  | APIError int string
  | JSONDecodeError string
  | ConnectionTestFailed error
  | SharesDecodeFailed string
  | SharesOCSError string int
  | IDQualifierMissing
  | ShareDetailDecodeFailed string
  | ShareNotFound int
  | ActivityDecodeFailed string
  | ActivityListOCSError string int
  | InvalidIDFormat string
  | ActivityGetOCSError string int
  | ActivityNotFound string
  | PanicNilDereference
  | PanicTypeAssertion

definition e_acute :: string where
  "e_acute = [CHR 0xC3, CHR 0xA9]"

fun Error :: "error \<Rightarrow> string" where
  "Error ServerURLMissing = ''server_url must be configured''"
| "Error UsernameMissing = ''username must be configured''"
| "Error PasswordMissing = ''password must be configured''"
| "Error (UnableToConnect err) = ''unable to connect to Nextcloud: '' @ Error err"
| "Error (InvalidURL err) = ''invalid URL: '' @ err"
| "Error (CreateRequestFailed err) = ''failed to create request: '' @ err"
| "Error (RequestFailed err) = ''request failed: '' @ err"
| "Error (APIError code body) = ''Nextcloud API error '' @ fmt_d code @ '': '' @ body"
| "Error (JSONDecodeError err) = err"
| "Error (ConnectionTestFailed err) = ''connection test failed: '' @ Error err"
| "Error (SharesDecodeFailed err) = ''error decoding JSON Nextcloud Shares: '' @ err"
| "Error (SharesOCSError msg code) = ''OCS API error: '' @ msg @ '' (code '' @ fmt_d code @ '')''"
| "Error IDQualifierMissing = ''id qualifier not provided''"
| "Error (ShareDetailDecodeFailed err) = ''error decoding JSON Nextcloud Share detail: '' @ err"
| "Error (ShareNotFound n) = ''share with ID '' @ fmt_d n @ '' not found''"
| "Error (ActivityDecodeFailed err) =
     e_acute @ ''chec du d'' @ e_acute @ ''codage JSON Nextcloud Activity : '' @ err"
| "Error (ActivityListOCSError msg code) =
     ''erreur OCS API : '' @ msg @ '' (code : '' @ fmt_d code @ '')''"
| "Error (InvalidIDFormat s) = ''invalid ID format: '' @ s"
| "Error (ActivityGetOCSError msg code) =
     ''OCS API error: '' @ msg @ '' (code: '' @ fmt_d code @ '')''"
| "Error (ActivityNotFound s) = ''activity with ID '' @ s @ '' not found''"
| "Error PanicNilDereference = ''runtime error: invalid memory address or nil pointer dereference''"
| "Error PanicTypeAssertion = ''interface conversion''"

section \<open>Configuration (connection_config.go)\<close>

text \<open>
  \<^verbatim>\<open>NextcloudConfig\<close>: three \<^verbatim>\<open>*string\<close> fields, \<open>None\<close> the nil pointer.
  \<^verbatim>\<open>plugin.Connection\<close> holds the configuration in a field of type \<^verbatim>\<open>interface{}\<close>:
  the nil interface, a \<^verbatim>\<open>*NextcloudConfig\<close> (a pointer, which may itself be nil), a
  \<^verbatim>\<open>NextcloudConfig\<close> value, or a value of any other type.
\<close>

record NextcloudConfig =
  ServerURL :: "string option"
  Username :: "string option"
  Password :: "string option"

datatype config_interface =
    NilInterface
  | ConfigPointer "NextcloudConfig option"
  | ConfigValue NextcloudConfig
  | OtherType

record Connection =
  Config :: config_interface

definition empty_config :: NextcloudConfig where
  "empty_config = \<lparr>ServerURL = None, Username = None, Password = None\<rparr>"

text \<open>
  \<^verbatim>\<open>conn.Config\<close> on a \<^verbatim>\<open>*plugin.Connection\<close>: reading a field through a nil pointer
  panics.
\<close>

definition Config_of :: "Connection option \<Rightarrow> error + config_interface" where
  "Config_of conn = (case conn of None \<Rightarrow> Inl PanicNilDereference | Some c \<Rightarrow> Inr (Config c))"

text \<open>
  \<^verbatim>\<open>GetConfig\<close> of connection_config.go, lines 144-157. The result is a
  \<^verbatim>\<open>*NextcloudConfig\<close>: \<open>Inr None\<close> is the nil pointer. The test
  \<^verbatim>\<open>conn == nil || conn.Config == nil\<close> reads the field only when the first disjunct is
  false; an interface that holds a nil pointer is not the nil interface.
\<close>

definition GetConfig :: "Connection option \<Rightarrow> error + NextcloudConfig option" where
  "GetConfig conn =
     (if conn = None then Inr (Some empty_config)
      else case Config_of conn of
             Inl p \<Rightarrow> Inl p
           | Inr NilInterface \<Rightarrow> Inr (Some empty_config)
           | Inr (ConfigPointer cfg) \<Rightarrow> Inr cfg
           | Inr (ConfigValue cfg) \<Rightarrow> Inr (Some cfg)
           | Inr OtherType \<Rightarrow> Inr (Some empty_config))"

text \<open>
  The other \<^verbatim>\<open>GetConfig\<close> of the repository (unnamed/part_000, lines 140-145): after the
  same nil test it returns \<^verbatim>\<open>conn.Config.(*NextcloudConfig)\<close>, a type assertion, which
  panics when the interface holds any other type.
\<close>

definition GetConfig_part_000 :: "Connection option \<Rightarrow> error + NextcloudConfig option" where
  "GetConfig_part_000 conn =
     (if conn = None then Inr (Some empty_config)
      else case Config_of conn of
             Inl p \<Rightarrow> Inl p
           | Inr NilInterface \<Rightarrow> Inr (Some empty_config)
           | Inr (ConfigPointer cfg) \<Rightarrow> Inr cfg
           | Inr (ConfigValue cfg) \<Rightarrow> Inl PanicTypeAssertion
           | Inr OtherType \<Rightarrow> Inl PanicTypeAssertion)"

section \<open>Records of the two tables and the OCS envelope\<close>

text \<open>
  A value decoded into \<^verbatim>\<open>interface{}\<close> by encoding/json, and \<^verbatim>\<open>time.Time\<close> as an
  instant (its Unix time in nanoseconds). No handler looks inside either.
\<close>

typedecl float64

datatype any =
    AnyNil
  | AnyBool bool
  | AnyFloat64 float64
  | AnyString string
  | AnySlice "any list"
  | AnyMap "(string \<times> any) list"

datatype Time = UnixNano int

text \<open>\<^verbatim>\<open>Activity\<close> of the activity table (unnamed/part_001, lines 17-29).\<close>

record Activity =
  ActivityID :: int
  App :: string
  Type :: string
  Subject :: string
  SubjectRich :: any
  SubjectParams :: "string list"
  ObjectType :: string
  ObjectID :: int
  ObjectName :: string
  Time :: Time
  User :: string

text \<open>
  \<^verbatim>\<open>ocsShare\<close> (table_nextcloud_files_sharing.go, lines 15-30). Its fields
  \<^verbatim>\<open>Password\<close> and \<^verbatim>\<open>URL\<close> are \<open>SharePassword\<close> and \<open>ShareURL\<close> here.
\<close>

record ocsShare =
  ID :: string
  ShareType :: int
  ShareWith :: string
  ShareWithDisplayName :: string
  Path :: string
  Permissions :: int
  SharePassword :: "string option"
  PublicUpload :: bool
  ExpireDate :: "string option"
  ShareURL :: string
  UIDOwner :: string
  Owner :: string
  TimeCreated :: int
  TimeModified :: int

text \<open>
  \<^verbatim>\<open>ocsActivityListResponse\<close> and \<^verbatim>\<open>ocsShareListResponse\<close>: the same envelope around
  a list of records. \<open>Meta r\<close> is \<^verbatim>\<open>r.Ocs.Meta\<close> and \<open>Data r\<close> is \<^verbatim>\<open>r.Ocs.Data\<close>;
  the status code of the envelope is \<open>MetaStatusCode\<close>.
\<close>

record ocsMeta =
  Status :: string
  MetaStatusCode :: int
  Message :: string

record 'a ocsListResponse =
  Meta :: ocsMeta
  Data :: "'a list"

type_synonym ocsActivityListResponse = "Activity ocsListResponse"

type_synonym ocsShareListResponse = "ocsShare ocsListResponse"

section \<open>The host's side: qualifiers, query data, streamed rows\<close>

text \<open>
  \<^verbatim>\<open>proto.QualValue\<close> is a oneof; its getters give the zero value when the value is of
  another kind. \<^verbatim>\<open>d.EqualsQuals\<close> maps a column to a \<^verbatim>\<open>*proto.QualValue\<close>, nil when
  the column has no equality qualifier.
\<close>

datatype QualValue = StringValue string | Int64Value int | OtherValue

definition GetStringValue :: "QualValue \<Rightarrow> string" where
  "GetStringValue q = (case q of StringValue s \<Rightarrow> s | _ \<Rightarrow> [])"

definition GetInt64Value :: "QualValue \<Rightarrow> int" where
  "GetInt64Value q = (case q of Int64Value i \<Rightarrow> i | _ \<Rightarrow> 0)"

record QueryData =
  Connection :: "Connection option"
  EqualsQuals :: "string \<Rightarrow> QualValue option"

datatype item = ActivityItem Activity | ShareItem ocsShare

section \<open>The HTTP client (connection_config.go)\<close>

text \<open>
  \<^verbatim>\<open>NextcloudClient\<close>; its \<^verbatim>\<open>Username\<close> and \<^verbatim>\<open>Password\<close> are \<open>ClientUsername\<close> and
  \<open>ClientPassword\<close> here, and \<open>Timeout\<close> is the timeout of its \<^verbatim>\<open>http.Client\<close> in
  seconds.
\<close>

record NextcloudClient =
  BaseURL :: string
  ClientUsername :: string
  ClientPassword :: string
  Timeout :: nat

record Request =
  Method :: string
  URL :: string
  Header :: "(string \<times> string) list"
  BasicAuth :: "(string \<times> string) option"

record Response =
  StatusCode :: int
  Body :: string

text \<open>
  What lies outside the repository is a parameter of every function below:
  \<^item> \<open>url_Parse\<close>: \<^verbatim>\<open>url.Parse\<close> followed by \<^verbatim>\<open>u.String()\<close>, or the error's message;
  \<^item> \<open>NewRequestWithContext\<close>: the error of \<^verbatim>\<open>http.NewRequestWithContext\<close> for a
    method and a URL, if any;
  \<^item> \<open>respond\<close>: the network and the server: what \<^verbatim>\<open>HTTPClient.Do\<close> returns for a
    request, given the requests sent before it (an error's message, also when the
    context is cancelled, or the response, \<open>Body\<close> being the bytes read from it);
  \<^item> \<open>decode_capabilities\<close>, \<open>decode_activities\<close>, \<open>decode_shares\<close>:
    \<^verbatim>\<open>json.NewDecoder(body).Decode\<close> into a map, an \<^verbatim>\<open>ocsActivityListResponse\<close>, an
    \<^verbatim>\<open>ocsShareListResponse\<close>: the error's message or the decoded value.
  The effects are kept in a \<open>trace\<close>: the requests sent so far and the rows given to
  \<^verbatim>\<open>d.StreamListItem\<close> so far.
\<close>

record env =
  url_Parse :: "string \<Rightarrow> string + string"
  NewRequestWithContext :: "string \<Rightarrow> string \<Rightarrow> string option"
  respond :: "Request list \<Rightarrow> Request \<Rightarrow> string + Response"
  decode_capabilities :: "string \<Rightarrow> string option"
  decode_activities :: "string \<Rightarrow> string + ocsActivityListResponse"
  decode_shares :: "string \<Rightarrow> string + ocsShareListResponse"

record trace =
  sent :: "Request list"
  streamed :: "item list"

definition StreamListItem :: "trace \<Rightarrow> item \<Rightarrow> trace" where
  "StreamListItem t x = t\<lparr>streamed := streamed t @ [x]\<rparr>"

definition Do :: "env \<Rightarrow> trace \<Rightarrow> Request \<Rightarrow> (string + Response) \<times> trace" where
  "Do env t req = (respond env (sent t) req, t\<lparr>sent := sent t @ [req]\<rparr>)"

text \<open>
  \<^verbatim>\<open>req.Header.Set(key, value)\<close>: the one value of the key, the key in the canonical
  form of \<^verbatim>\<open>textproto.CanonicalMIMEHeaderKey\<close>. A key with a byte that is no token
  byte of a header field is kept as it is; otherwise the first letter and every letter
  after a hyphen are made upper case and all other letters lower case.
\<close>

definition validHeaderFieldByte :: "char \<Rightarrow> bool" where
  "validHeaderFieldByte c =
     (let b = (of_char c :: nat)
      in (48 \<le> b \<and> b \<le> 57) \<or> (97 \<le> b \<and> b \<le> 122) \<or> (65 \<le> b \<and> b \<le> 90)
         \<or> b \<in> {33, 35, 36, 37, 38, 39, 42, 43, 45, 46, 94, 95, 96, 124, 126})"

fun canonical_loop :: "bool \<Rightarrow> string \<Rightarrow> string" where
  "canonical_loop upper [] = []"
| "canonical_loop upper (c # cs) =
     (let b = (of_char c :: nat);
          c1 = (if upper \<and> 97 \<le> b \<and> b \<le> 122 then char_of (b - 32)
                else if \<not> upper \<and> 65 \<le> b \<and> b \<le> 90 then char_of (b + 32)
                else c)
      in c1 # canonical_loop (c1 = CHR ''-'') cs)"

definition CanonicalMIMEHeaderKey :: "string \<Rightarrow> string" where
  "CanonicalMIMEHeaderKey s =
     (if list_all validHeaderFieldByte s then canonical_loop True s else s)"

definition Header_Set :: "(string \<times> string) list \<Rightarrow> string \<Rightarrow> string \<Rightarrow> (string \<times> string) list" where
  "Header_Set h k v =
     (let key = CanonicalMIMEHeaderKey k in filter (\<lambda>kv. fst kv \<noteq> key) h @ [(key, v)])"

text \<open>
  \<^verbatim>\<open>MakeRequest\<close> (lines 82-118). Every call of the repository passes a nil body, so
  the body is left out.
\<close>

definition MakeRequest ::
  "env \<Rightarrow> trace \<Rightarrow> NextcloudClient \<Rightarrow> string \<Rightarrow> string \<Rightarrow> (error + Response) \<times> trace" where
  "MakeRequest env t c method endpoint =
     (case url_Parse env (BaseURL c @ endpoint) of
        Inl err \<Rightarrow> (Inl (InvalidURL err), t)
      | Inr u \<Rightarrow>
          (case NewRequestWithContext env method u of
             Some err \<Rightarrow> (Inl (CreateRequestFailed err), t)
           | None \<Rightarrow>
               let h1 = Header_Set [] ''OCS-APIREQUEST'' ''true'';
                   h2 = Header_Set h1 ''Accept'' ''application/json'';
                   h3 = Header_Set h2 ''Content-Type'' ''application/json'';
                   h4 = Header_Set h3 ''User-Agent'' ''Steampipe-Nextcloud-Plugin/1.0'';
                   req = \<lparr>Method = method, URL = u, Header = h4,
                          BasicAuth = Some (ClientUsername c, ClientPassword c)\<rparr>
               in case Do env t req of
                    (Inl err, t') \<Rightarrow> (Inl (RequestFailed err), t')
                  | (Inr resp, t') \<Rightarrow>
                      if StatusCode resp \<ge> 400
                      then (Inl (APIError (StatusCode resp) (Body resp)), t')
                      else (Inr resp, t')))"

text \<open>
  \<^verbatim>\<open>GetJSON\<close> (lines 121-129): the decoder of the value that \<^verbatim>\<open>result\<close> points to is
  the argument \<open>decode\<close>; its error is returned as it is.
\<close>

definition GetJSON ::
  "env \<Rightarrow> trace \<Rightarrow> NextcloudClient \<Rightarrow> string \<Rightarrow> (string \<Rightarrow> string option) \<Rightarrow> error option \<times> trace" where
  "GetJSON env t c endpoint decode =
     (case MakeRequest env t c ''GET'' endpoint of
        (Inl err, t') \<Rightarrow> (Some err, t')
      | (Inr resp, t') \<Rightarrow> (map_option JSONDecodeError (decode (Body resp)), t'))"

definition TestConnection :: "env \<Rightarrow> trace \<Rightarrow> NextcloudClient \<Rightarrow> error option \<times> trace" where
  "TestConnection env t c =
     (case GetJSON env t c ''ocs/v1.php/cloud/capabilities?format=json'' (decode_capabilities env) of
        (Some err, t') \<Rightarrow> (Some (ConnectionTestFailed err), t')
      | (None, t') \<Rightarrow> (None, t'))"

text \<open>
  \<^verbatim>\<open>NewNextcloudClient\<close> (lines 39-79). Reading \<^verbatim>\<open>cfg.ServerURL\<close> through a nil
  \<^verbatim>\<open>cfg\<close> panics.
\<close>

definition NewNextcloudClient ::
  "env \<Rightarrow> trace \<Rightarrow> Connection option \<Rightarrow> (error + NextcloudClient) \<times> trace" where
  "NewNextcloudClient env t conn =
     (case GetConfig conn of
        Inl p \<Rightarrow> (Inl p, t)
      | Inr None \<Rightarrow> (Inl PanicNilDereference, t)
      | Inr (Some cfg) \<Rightarrow>
          if ServerURL cfg \<noteq> None \<and> the (ServerURL cfg) \<noteq> [] then
            if Username cfg \<noteq> None \<and> the (Username cfg) \<noteq> [] then
              if Password cfg \<noteq> None \<and> the (Password cfg) \<noteq> [] then
                let client = \<lparr>BaseURL = the (ServerURL cfg),
                              ClientUsername = the (Username cfg),
                              ClientPassword = the (Password cfg),
                              Timeout = 30\<rparr>;
                    client = (if \<not> HasSuffix (BaseURL client) ''/''
                              then client\<lparr>BaseURL := BaseURL client @ ''/''\<rparr> else client)
                in case TestConnection env t client of
                     (Some err, t') \<Rightarrow> (Inl (UnableToConnect err), t')
                   | (None, t') \<Rightarrow> (Inr client, t')
              else (Inl PasswordMissing, t)
            else (Inl UsernameMissing, t)
          else (Inl ServerURLMissing, t))"

definition GetClient ::
  "env \<Rightarrow> trace \<Rightarrow> Connection option \<Rightarrow> (error + NextcloudClient) \<times> trace" where
  "GetClient env t conn = NewNextcloudClient env t conn"

section \<open>The share table (table_nextcloud_files_sharing.go)\<close>

text \<open>
  A hydrate function returns \<^verbatim>\<open>(interface{}, error)\<close>: \<open>Inr None\<close> is \<^verbatim>\<open>nil, nil\<close>.
\<close>

definition listShares :: "env \<Rightarrow> trace \<Rightarrow> QueryData \<Rightarrow> (error + item option) \<times> trace" where
  "listShares env t d =
     (case GetClient env t (Connection d) of
        (Inl err, t1) \<Rightarrow> (Inl err, t1)
      | (Inr client, t1) \<Rightarrow>
          (case MakeRequest env t1 client ''GET''
                  ''ocs/v2.php/apps/files_sharing/api/v1/shares?format=json'' of
             (Inl err, t2) \<Rightarrow> (Inl err, t2)
           | (Inr resp, t2) \<Rightarrow>
               (case decode_shares env (Body resp) of
                  Inl err \<Rightarrow> (Inl (SharesDecodeFailed err), t2)
                | Inr result \<Rightarrow>
                    if Status (Meta result) \<noteq> ''ok''
                    then (Inl (SharesOCSError (Message (Meta result))
                                 (MetaStatusCode (Meta result))), t2)
                    else (Inr None,
                          foldl (\<lambda>t' share. StreamListItem t' (ShareItem share)) t2
                            (Data result)))))"

definition getShare :: "env \<Rightarrow> trace \<Rightarrow> QueryData \<Rightarrow> (error + item option) \<times> trace" where
  "getShare env t d =
     (case EqualsQuals d ''id'' of
        None \<Rightarrow> (Inl IDQualifierMissing, t)
      | Some qual \<Rightarrow>
          let ident = GetInt64Value qual
          in case GetClient env t (Connection d) of
               (Inl err, t1) \<Rightarrow> (Inl err, t1)
             | (Inr client, t1) \<Rightarrow>
                 (case MakeRequest env t1 client ''GET''
                         (''ocs/v2.php/apps/files_sharing/api/v1/shares/'' @ fmt_d ident
                            @ ''?format=json'') of
                    (Inl err, t2) \<Rightarrow> (Inl err, t2)
                  | (Inr resp, t2) \<Rightarrow>
                      (case decode_shares env (Body resp) of
                         Inl err \<Rightarrow> (Inl (ShareDetailDecodeFailed err), t2)
                       | Inr result \<Rightarrow>
                           if Status (Meta result) \<noteq> ''ok'' \<or> length (Data result) = 0
                           then (Inl (ShareNotFound ident), t2)
                           else (Inr (Some (ShareItem (Data result ! 0))), t2))))"

section \<open>The activity table (unnamed/part_001)\<close>

definition listActivity :: "env \<Rightarrow> trace \<Rightarrow> QueryData \<Rightarrow> (error + item option) \<times> trace" where
  "listActivity env t d =
     (case GetClient env t (Connection d) of
        (Inl err, t1) \<Rightarrow> (Inl err, t1)
      | (Inr client, t1) \<Rightarrow>
          (case MakeRequest env t1 client ''GET''
                  ''ocs/v2.php/apps/activity/api/v2/activity?format=json'' of
             (Inl err, t2) \<Rightarrow> (Inl err, t2)
           | (Inr resp, t2) \<Rightarrow>
               (case decode_activities env (Body resp) of
                  Inl err \<Rightarrow> (Inl (ActivityDecodeFailed err), t2)
                | Inr result \<Rightarrow>
                    if Status (Meta result) \<noteq> ''ok''
                    then (Inl (ActivityListOCSError (Message (Meta result))
                                 (MetaStatusCode (Meta result))), t2)
                    else (case EqualsQuals d ''user_id'' of
                            Some qual \<Rightarrow>
                              let userID = GetStringValue qual
                              in (Inr None,
                                  foldl (\<lambda>t' activity.
                                           if User activity = userID
                                           then StreamListItem t' (ActivityItem activity)
                                           else t')
                                    t2 (Data result))
                          | None \<Rightarrow>
                              (Inr None,
                               foldl (\<lambda>t' activity. StreamListItem t' (ActivityItem activity)) t2
                                 (Data result))))))"

definition getActivity :: "env \<Rightarrow> trace \<Rightarrow> QueryData \<Rightarrow> (error + item option) \<times> trace" where
  "getActivity env t d =
     (case EqualsQuals d ''id'' of
        None \<Rightarrow> (Inl IDQualifierMissing, t)
      | Some qual \<Rightarrow>
          let ident = GetStringValue qual
          in case ParseInt ident of
               Inl err \<Rightarrow> (Inl (InvalidIDFormat ident), t)
             | Inr idInt \<Rightarrow>
                 (case GetClient env t (Connection d) of
                    (Inl err, t1) \<Rightarrow> (Inl err, t1)
                  | (Inr client, t1) \<Rightarrow>
                      (case MakeRequest env t1 client ''GET''
                              ''ocs/v2.php/apps/activity/api/v2/activity?format=json'' of
                         (Inl err, t2) \<Rightarrow> (Inl err, t2)
                       | (Inr resp, t2) \<Rightarrow>
                           (case decode_activities env (Body resp) of
                              Inl err \<Rightarrow> (Inl (ActivityDecodeFailed err), t2)
                            | Inr result \<Rightarrow>
                                if Status (Meta result) \<noteq> ''ok''
                                then (Inl (ActivityGetOCSError (Message (Meta result))
                                             (MetaStatusCode (Meta result))), t2)
                                else (case find (\<lambda>activity. ActivityID activity = idInt)
                                             (Data result) of
                                        Some activity \<Rightarrow> (Inr (Some (ActivityItem activity)), t2)
                                      | None \<Rightarrow> (Inl (ActivityNotFound ident), t2))))))"

section \<open>Errors of the transport\<close>

text \<open>
  The errors that \<open>MakeRequest\<close> makes (lines 84-115: the URL, the request, the
  round trip, a status of 400 or above), bare or wrapped by \<open>TestConnection\<close> and
  \<open>NewNextcloudClient\<close>.
\<close>

fun transport_failure :: "error \<Rightarrow> bool" where
  "transport_failure (InvalidURL err) = True"
| "transport_failure (CreateRequestFailed err) = True"
| "transport_failure (RequestFailed err) = True"
| "transport_failure (APIError code body) = True"
| "transport_failure (ConnectionTestFailed err) = transport_failure err"
| "transport_failure (UnableToConnect err) = transport_failure err"
| "transport_failure err = False"

section \<open>Example inputs\<close>

text \<open>
  A server at \<^verbatim>\<open>https://cloud.example.com/\<close> that answers the capabilities call with
  status 200 and every other request with the given status and body; the decoders give
  an envelope of the given meta block and records whatever the body.
\<close>

definition example_env :: "int \<Rightarrow> string \<Rightarrow> ocsMeta \<Rightarrow> Activity list \<Rightarrow> ocsShare list \<Rightarrow> env" where
  "example_env status body meta activities shares =
     \<lparr>url_Parse = Inr,
      NewRequestWithContext = (\<lambda>method u. None),
      respond = (\<lambda>log req.
        if URL req = ''https://cloud.example.com/ocs/v1.php/cloud/capabilities?format=json''
        then Inr \<lparr>StatusCode = 200, Body = ''{}''\<rparr>
        else Inr \<lparr>StatusCode = status, Body = body\<rparr>),
      decode_capabilities = (\<lambda>b. None),
      decode_activities = (\<lambda>b. Inr \<lparr>Meta = meta, Data = activities\<rparr>),
      decode_shares = (\<lambda>b. Inr \<lparr>Meta = meta, Data = shares\<rparr>)\<rparr>"

definition example_client :: NextcloudClient where
  "example_client = \<lparr>BaseURL = ''https://cloud.example.com/'', ClientUsername = ''alice'',
     ClientPassword = ''secret'', Timeout = 30\<rparr>"

definition no_trace :: trace where
  "no_trace = \<lparr>sent = [], streamed = []\<rparr>"

definition meta_ok :: ocsMeta where
  "meta_ok = \<lparr>Status = ''ok'', MetaStatusCode = 200, Message = ''OK''\<rparr>"

text \<open>
  A connection whose three settings are present, the request that the probe of its
  client sends, and a server that cannot be reached.
\<close>

definition example_config :: NextcloudConfig where
  "example_config = \<lparr>ServerURL = Some ''https://cloud.example.com'', Username = Some ''alice'',
     Password = Some ''secret''\<rparr>"

definition example_connection :: "Connection option" where
  "example_connection = Some \<lparr>Config = ConfigPointer (Some example_config)\<rparr>"

definition unreachable_env :: env where
  "unreachable_env = (example_env 200 [] meta_ok [] [])
     \<lparr>respond := (\<lambda>log req. Inl ''dial tcp: connection refused'')\<rparr>"

definition probe_request :: Request where
  "probe_request = \<lparr>Method = ''GET'',
     URL = ''https://cloud.example.com/ocs/v1.php/cloud/capabilities?format=json'',
     Header = [(''Ocs-Apirequest'', ''true''), (''Accept'', ''application/json''),
               (''Content-Type'', ''application/json''),
               (''User-Agent'', ''Steampipe-Nextcloud-Plugin/1.0'')],
     BasicAuth = Some (''alice'', ''secret'')\<rparr>"

text \<open>An activity record, a query on the example connection, the activity request.\<close>

definition example_activity :: "int \<Rightarrow> string \<Rightarrow> Activity" where
  "example_activity n u =
     \<lparr>ActivityID = n, App = ''files'', Type = ''file_created'',
      Subject = ''You created notes.txt'', SubjectRich = AnySlice [],
      SubjectParams = [], ObjectType = ''files'', ObjectID = 42,
      ObjectName = ''/notes.txt'', Time = UnixNano 1700000000000000000, User = u\<rparr>"

definition example_query :: "(string \<Rightarrow> QualValue option) \<Rightarrow> QueryData" where
  "example_query quals = \<lparr>Connection = example_connection, EqualsQuals = quals\<rparr>"

definition activity_request :: Request where
  "activity_request = probe_request
     \<lparr>URL := ''https://cloud.example.com/ocs/v2.php/apps/activity/api/v2/activity?format=json''\<rparr>"

text \<open>
  The meta block of an envelope that reports a failure, and the requests of the share
  table.
\<close>

definition meta_failure :: ocsMeta where
  "meta_failure = \<lparr>Status = ''failure'', MetaStatusCode = 997,
     Message = ''Current user is not logged in''\<rparr>"

definition shares_request :: Request where
  "shares_request = probe_request
     \<lparr>URL := ''https://cloud.example.com/ocs/v2.php/apps/files_sharing/api/v1/shares?format=json''\<rparr>"

definition share_request :: "string \<Rightarrow> Request" where
  "share_request n = probe_request
     \<lparr>URL := ''https://cloud.example.com/ocs/v2.php/apps/files_sharing/api/v1/shares/'' @ n
               @ ''?format=json''\<rparr>"

text \<open>A share record.\<close>

definition example_share :: "string \<Rightarrow> ocsShare" where
  "example_share n =
     \<lparr>ID = n, ShareType = 3, ShareWith = [], ShareWithDisplayName = [],
      Path = ''/notes.txt'', Permissions = 1, SharePassword = None, PublicUpload = False,
      ExpireDate = None, ShareURL = ''https://cloud.example.com/s/abc'', UIDOwner = ''alice'',
      Owner = ''Alice'', TimeCreated = 1700000000, TimeModified = 1700000000\<rparr>"

section \<open>Facts about the library functions\<close>

lemma HasSuffix_iff: "HasSuffix s suf \<longleftrightarrow> suffix suf s"
  unfolding HasSuffix_def
  by (metis suffix_drop suffix_length_le suffix_take append_take_drop_id append_eq_conv_conj)

lemma digit_of_digit_char: "d < 10 \<Longrightarrow> digit_of (digit_char d) = Some d"
proof -
  assume "d < 10"
  then have "d \<in> {0, 1, 2, 3, 4, 5, 6, 7, 8, 9}" by auto
  then show ?thesis
    by (auto simp: digit_of_def digit_char_def)
qed

lemma digit_char_not_sign: "d < 10 \<Longrightarrow> digit_char d \<noteq> CHR ''-'' \<and> digit_char d \<noteq> CHR ''+''"
proof -
  assume "d < 10"
  then have "d \<in> {0, 1, 2, 3, 4, 5, 6, 7, 8, 9}" by auto
  then show ?thesis
    by (auto simp: digit_char_def)
qed

lemma digits_not_Nil: "digits n \<noteq> []"
  by (subst digits.simps) simp

lemma hd_digits: "\<exists>d < 10. hd (digits n) = digit_char d"
proof (induction n rule: digits.induct)
  case (1 n)
  show ?case
  proof (cases "n < 10")
    case True
    then show ?thesis by (subst digits.simps) auto
  next
    case False
    with 1 obtain d where "d < 10" "hd (digits (n div 10)) = digit_char d" by auto
    with False show ?thesis
      by (subst digits.simps) (auto simp: digits_not_Nil)
  qed
qed

lemma ParseUint_loop_append:
  "ParseUint_loop n (xs @ ys) =
     (case ParseUint_loop n xs of Inl e \<Rightarrow> Inl e | Inr m \<Rightarrow> ParseUint_loop m ys)"
  by (induction xs arbitrary: n) (auto simp: Let_def split: option.splits)

lemma ParseUint_loop_digits: "n < 2 ^ 64 \<Longrightarrow> ParseUint_loop 0 (digits n) = Inr n"
proof (induction n rule: digits.induct)
  case (1 n)
  show ?case
  proof (cases "n < 10")
    case True
    then show ?thesis
      by (subst digits.simps) (simp add: digit_of_digit_char maxUint64_def)
  next
    case False
    have small: "n div 10 < 2 ^ 64" using "1.prems" by simp
    have ih: "ParseUint_loop 0 (digits (n div 10)) = Inr (n div 10)"
      using "1.IH" False small by simp
    have d: "digit_of (digit_char (n mod 10)) = Some (n mod 10)"
      by (simp add: digit_of_digit_char)
    have c: "\<not> n div 10 \<ge> maxUint64 div 10 + 1"
      using "1.prems" by (simp add: maxUint64_def)
    have e: "(n div 10 * 10 + n mod 10) mod 2 ^ 64 = n"
      using "1.prems" by simp
    have f: "\<not> (n < n div 10 * 10 \<or> n > maxUint64)"
      using "1.prems" by (simp add: maxUint64_def)
    show ?thesis
      using False ih d c e f
      by (subst digits.simps) (simp add: ParseUint_loop_append Let_def)
  qed
qed

lemma ParseUint_digits: "n < 2 ^ 64 \<Longrightarrow> ParseUint (digits n) = Inr n"
  by (simp add: ParseUint_def digits_not_Nil ParseUint_loop_digits)

lemma ParseInt_fmt_d:
  assumes "- (2 ^ 63) \<le> v" and "v < 2 ^ 63"
  shows "ParseInt (fmt_d v) = Inr v"
proof (cases "v < 0")
  case True
  have n: "nat (- v) < 2 ^ 64" "nat (- v) \<le> 2 ^ 63" using assms True by auto
  have "ParseUint (digits (nat (- v))) = Inr (nat (- v))"
    using n by (simp add: ParseUint_digits)
  moreover have "neg64 (int64 (nat (- v))) = v"
  proof (cases "v = - (2 ^ 63)")
    case True
    then show ?thesis by (simp add: neg64_def int64_def)
  next
    case False
    have a: "(- v + 2 ^ 63) mod 2 ^ 64 = - v + 2 ^ 63"
      using assms \<open>v < 0\<close> False by (intro mod_pos_pos_trivial) auto
    have b: "(v + 2 ^ 63) mod 2 ^ 64 = v + 2 ^ 63"
      using assms \<open>v < 0\<close> by (intro mod_pos_pos_trivial) auto
    have "int64 (nat (- v)) = - v"
      using a \<open>v < 0\<close> by (simp add: int64_def)
    then show ?thesis
      using b by (simp add: neg64_def)
  qed
  ultimately show ?thesis
    using True n by (simp add: ParseInt_def fmt_d_def)
next
  case False
  obtain d where d: "d < 10" "hd (digits (nat v)) = digit_char d"
    using hd_digits by blast
  have n: "nat v < 2 ^ 63" using assms False by auto
  then have "nat v < 2 ^ 64" by simp
  then have "ParseUint (digits (nat v)) = Inr (nat v)"
    by (simp add: ParseUint_digits)
  moreover have "int64 (nat v) = v"
  proof -
    have "(v + 2 ^ 63) mod 2 ^ 64 = v + 2 ^ 63"
      using assms False by (intro mod_pos_pos_trivial) auto
    then show ?thesis using False by (simp add: int64_def)
  qed
  ultimately show ?thesis
    using False n d digit_char_not_sign[OF d(1)]
    by (simp add: ParseInt_def fmt_d_def digits_not_Nil)
qed

lemma sublist_skip: "sublist x ys \<Longrightarrow> sublist x (zs @ ys)"
  by (metis append.assoc sublist_def)

lemma MakeRequest_cases:
  assumes "MakeRequest env t c method endpoint = (r, t')"
  shows "(t' = t \<and> (\<exists>err. r = Inl (InvalidURL err) \<or> r = Inl (CreateRequestFailed err)))
       \<or> (\<exists>req. t' = t\<lparr>sent := sent t @ [req]\<rparr> \<and>
            (case respond env (sent t) req of
               Inl err \<Rightarrow> r = Inl (RequestFailed err)
             | Inr resp \<Rightarrow> r = (if StatusCode resp \<ge> 400
                                then Inl (APIError (StatusCode resp) (Body resp)) else Inr resp)))"
  using assms
  by (auto simp: MakeRequest_def Do_def Let_def split: sum.splits option.splits if_splits)


lemma HasSuffix_slash_append: "HasSuffix (u @ ''/'') ''/''"
  by (simp add: HasSuffix_iff)

lemma HasSuffix_two_slashes_append:
  "\<not> HasSuffix u ''/'' \<Longrightarrow> \<not> HasSuffix (u @ ''/'') ''//''"
proof
  assume a: "\<not> HasSuffix u ''/''" and b: "HasSuffix (u @ ''/'') ''//''"
  from b obtain ps where "u @ ''/'' = ps @ ''//''"
    by (auto simp: HasSuffix_iff suffix_def)
  then have "u = ps @ ''/''" by simp
  with a show False by (simp add: HasSuffix_iff)
qed

lemma NewNextcloudClient_valid:
  assumes "GetConfig conn = Inr (Some cfg)"
    and "ServerURL cfg = Some u" and "u \<noteq> []"
    and "Username cfg = Some n" and "n \<noteq> []"
    and "Password cfg = Some p" and "p \<noteq> []"
  shows "NewNextcloudClient env t conn =
     (case TestConnection env t
             \<lparr>BaseURL = (if HasSuffix u ''/'' then u else u @ ''/''),
              ClientUsername = n, ClientPassword = p, Timeout = 30\<rparr> of
        (Some err, t') \<Rightarrow> (Inl (UnableToConnect err), t')
      | (None, t') \<Rightarrow>
          (Inr \<lparr>BaseURL = (if HasSuffix u ''/'' then u else u @ ''/''),
                ClientUsername = n, ClientPassword = p, Timeout = 30\<rparr>, t'))"
  using assms
  by (auto simp: NewNextcloudClient_def Let_def split: prod.splits option.splits)

lemma NewNextcloudClient_Inr:
  assumes "NewNextcloudClient env t conn = (Inr c, t')"
  shows "\<exists>cfg u n p. GetConfig conn = Inr (Some cfg)
           \<and> ServerURL cfg = Some u \<and> u \<noteq> [] \<and> Username cfg = Some n \<and> n \<noteq> []
           \<and> Password cfg = Some p \<and> p \<noteq> []
           \<and> c = \<lparr>BaseURL = (if HasSuffix u ''/'' then u else u @ ''/''),
                   ClientUsername = n, ClientPassword = p, Timeout = 30\<rparr>
           \<and> TestConnection env t c = (None, t')"
  using assms
  by (auto simp: NewNextcloudClient_def Let_def split: sum.splits option.splits if_splits prod.splits)

lemma MakeRequest_Inr:
  assumes "MakeRequest env t c method endpoint = (Inr resp, t')"
  shows "\<exists>req. t' = t\<lparr>sent := sent t @ [req]\<rparr>
           \<and> url_Parse env (BaseURL c @ endpoint) = Inr (URL req)
           \<and> Method req = method
           \<and> BasicAuth req = Some (ClientUsername c, ClientPassword c)
           \<and> respond env (sent t) req = Inr resp
           \<and> StatusCode resp < 400"
  using assms
  by (auto simp: MakeRequest_def Do_def Let_def split: sum.splits option.splits if_splits)

lemma TestConnection_None:
  assumes "TestConnection env t c = (None, t')"
  shows "\<exists>req resp. t' = t\<lparr>sent := sent t @ [req]\<rparr>
           \<and> url_Parse env (BaseURL c @ ''ocs/v1.php/cloud/capabilities?format=json'')
               = Inr (URL req)
           \<and> Method req = ''GET''
           \<and> BasicAuth req = Some (ClientUsername c, ClientPassword c)
           \<and> respond env (sent t) req = Inr resp
           \<and> StatusCode resp < 400
           \<and> decode_capabilities env (Body resp) = None"
proof -
  from assms obtain resp where
    m: "MakeRequest env t c ''GET'' ''ocs/v1.php/cloud/capabilities?format=json'' = (Inr resp, t')"
    and d: "decode_capabilities env (Body resp) = None"
    by (auto simp: TestConnection_def GetJSON_def split: prod.splits sum.splits option.splits)
  from MakeRequest_Inr[OF m] d show ?thesis by blast
qed

lemma TestConnection_Some:
  assumes "TestConnection env t c = (Some err, t')"
  shows "\<exists>e. err = ConnectionTestFailed e"
  using assms
  by (auto simp: TestConnection_def split: prod.splits option.splits)

lemma GetConfig_never_panics: "\<exists>cfg. GetConfig conn = Inr cfg"
  by (auto simp: GetConfig_def Config_of_def split: option.splits config_interface.splits)

lemma GetConfig_not_nil:
  assumes "\<And>c. conn = Some c \<Longrightarrow> Config c \<noteq> ConfigPointer None"
  shows "\<exists>cfg. GetConfig conn = Inr (Some cfg)"
  using assms
  by (cases conn) (auto simp: GetConfig_def Config_of_def split: config_interface.splits)

lemma MakeRequest_streamed:
  "MakeRequest env t c method endpoint = (r, t') \<Longrightarrow> streamed t' = streamed t"
  by (auto simp: MakeRequest_def Do_def Let_def split: sum.splits option.splits if_splits)

lemma MakeRequest_transport_failure:
  "MakeRequest env t c method endpoint = (Inl err, t') \<Longrightarrow> transport_failure err"
  by (auto simp: MakeRequest_def Do_def Let_def split: sum.splits option.splits if_splits)

lemma GetClient_streamed:
  "GetClient env t conn = (r, t') \<Longrightarrow> streamed t' = streamed t"
  by (auto simp: GetClient_def NewNextcloudClient_def TestConnection_def GetJSON_def Let_def
      dest: MakeRequest_streamed split: sum.splits option.splits if_splits prod.splits)

lemma foldl_StreamListItem:
  "foldl (\<lambda>t' x. StreamListItem t' (f x)) t xs = t\<lparr>streamed := streamed t @ map f xs\<rparr>"
  by (induction xs arbitrary: t) (simp_all add: StreamListItem_def)

lemma foldl_StreamListItem_if:
  "foldl (\<lambda>t' x. if P x then StreamListItem t' (f x) else t') t xs
     = t\<lparr>streamed := streamed t @ map f (filter P xs)\<rparr>"
  by (induction xs arbitrary: t) (simp_all add: StreamListItem_def)

lemma listActivity_decoded:
  assumes "GetClient env t (Connection d) = (Inr c, t1)"
    and "MakeRequest env t1 c ''GET'' ''ocs/v2.php/apps/activity/api/v2/activity?format=json''
           = (Inr resp, t2)"
    and "decode_activities env (Body resp) = Inr result"
  shows "listActivity env t d =
     (if Status (Meta result) \<noteq> ''ok''
      then (Inl (ActivityListOCSError (Message (Meta result)) (MetaStatusCode (Meta result))), t2)
      else case EqualsQuals d ''user_id'' of
             Some qual \<Rightarrow>
               (Inr None, t2\<lparr>streamed := streamed t @ map ActivityItem
                   (filter (\<lambda>activity. User activity = GetStringValue qual) (Data result))\<rparr>)
           | None \<Rightarrow> (Inr None, t2\<lparr>streamed := streamed t @ map ActivityItem (Data result)\<rparr>))"
proof -
  have s: "streamed t2 = streamed t"
    using MakeRequest_streamed[OF assms(2)] GetClient_streamed[OF assms(1)] by simp
  show ?thesis
    using assms s
    by (simp add: listActivity_def foldl_StreamListItem foldl_StreamListItem_if Let_def
        split: option.splits)
qed

lemma getActivity_decoded:
  assumes "EqualsQuals d ''id'' = Some qual"
    and "ParseInt (GetStringValue qual) = Inr idInt"
    and "GetClient env t (Connection d) = (Inr c, t1)"
    and "MakeRequest env t1 c ''GET'' ''ocs/v2.php/apps/activity/api/v2/activity?format=json''
           = (Inr resp, t2)"
    and "decode_activities env (Body resp) = Inr result"
  shows "getActivity env t d =
     (if Status (Meta result) \<noteq> ''ok''
      then (Inl (ActivityGetOCSError (Message (Meta result)) (MetaStatusCode (Meta result))), t2)
      else case find (\<lambda>activity. ActivityID activity = idInt) (Data result) of
             Some activity \<Rightarrow> (Inr (Some (ActivityItem activity)), t2)
           | None \<Rightarrow> (Inl (ActivityNotFound (GetStringValue qual)), t2))"
  using assms by (simp add: getActivity_def Let_def)

lemma listShares_decoded:
  assumes "GetClient env t (Connection d) = (Inr c, t1)"
    and "MakeRequest env t1 c ''GET'' ''ocs/v2.php/apps/files_sharing/api/v1/shares?format=json''
           = (Inr resp, t2)"
    and "decode_shares env (Body resp) = Inr result"
  shows "listShares env t d =
     (if Status (Meta result) \<noteq> ''ok''
      then (Inl (SharesOCSError (Message (Meta result)) (MetaStatusCode (Meta result))), t2)
      else (Inr None, t2\<lparr>streamed := streamed t @ map ShareItem (Data result)\<rparr>))"
proof -
  have s: "streamed t2 = streamed t"
    using MakeRequest_streamed[OF assms(2)] GetClient_streamed[OF assms(1)] by simp
  show ?thesis
    using assms s by (simp add: listShares_def foldl_StreamListItem)
qed

lemma getShare_decoded:
  assumes "EqualsQuals d ''id'' = Some qual"
    and "GetClient env t (Connection d) = (Inr c, t1)"
    and "MakeRequest env t1 c ''GET''
           (''ocs/v2.php/apps/files_sharing/api/v1/shares/'' @ fmt_d (GetInt64Value qual)
              @ ''?format=json'') = (Inr resp, t2)"
    and "decode_shares env (Body resp) = Inr result"
  shows "getShare env t d =
     (if Status (Meta result) \<noteq> ''ok'' \<or> Data result = []
      then (Inl (ShareNotFound (GetInt64Value qual)), t2)
      else (Inr (Some (ShareItem (hd (Data result)))), t2))"
  using assms by (auto simp: getShare_def Let_def hd_conv_nth)

lemma OCSError_text:
  "sublist msg (Error (ActivityListOCSError msg code))"
  "sublist (fmt_d code) (Error (ActivityListOCSError msg code))"
  "sublist msg (Error (ActivityGetOCSError msg code))"
  "sublist (fmt_d code) (Error (ActivityGetOCSError msg code))"
  "sublist msg (Error (SharesOCSError msg code))"
  "sublist (fmt_d code) (Error (SharesOCSError msg code))"
  unfolding Error.simps
  by (intro sublist_appendI sublist_skip)+

lemma OCSError_not_transport_text:
  assumes "transport_failure err"
  shows "Error err \<noteq> Error (ActivityListOCSError msg code)"
    and "Error err \<noteq> Error (ActivityGetOCSError msg code)"
    and "Error err \<noteq> Error (SharesOCSError msg code)"
  using assms by (cases err; simp)+

lemma NotFound_text:
  "sublist s (Error (ActivityNotFound s))"
  "sublist (fmt_d n) (Error (ShareNotFound n))"
  unfolding Error.simps
  by (intro sublist_appendI sublist_skip)+

lemma ActivityNotFound_text_distinct:
  assumes "transport_failure err \<or> (\<exists>x. err = ActivityDecodeFailed x)
           \<or> (\<exists>m k. err = ActivityGetOCSError m k)"
  shows "Error err \<noteq> Error (ActivityNotFound s)"
  using assms by (cases err) (auto simp: e_acute_def)

lemma ShareNotFound_text_distinct:
  assumes "transport_failure err \<or> (\<exists>x. err = ShareDetailDecodeFailed x)"
  shows "Error err \<noteq> Error (ShareNotFound n)"
  using assms by (cases err) auto

section \<open>Unfolding the model on the example inputs\<close>

lemma canonical_keys:
  "CanonicalMIMEHeaderKey ''OCS-APIREQUEST'' = ''Ocs-Apirequest''"
  "CanonicalMIMEHeaderKey ''Accept'' = ''Accept''"
  "CanonicalMIMEHeaderKey ''Content-Type'' = ''Content-Type''"
  "CanonicalMIMEHeaderKey ''User-Agent'' = ''User-Agent''"
  by code_simp+

lemmas example_simps = example_env_def example_client_def no_trace_def MakeRequest_def Do_def
  Header_Set_def canonical_keys Let_def

lemmas run_simps = example_simps example_config_def example_connection_def
  NewNextcloudClient_def GetClient_def GetConfig_def Config_of_def TestConnection_def GetJSON_def
  HasSuffix_def meta_ok_def

lemmas table_simps = run_simps example_query_def example_activity_def activity_request_def
  probe_request_def listActivity_def getActivity_def listShares_def getShare_def
  StreamListItem_def GetStringValue_def GetInt64Value_def

lemmas table_simps2 = table_simps meta_failure_def shares_request_def share_request_def

lemmas table_simps3 = table_simps2 example_share_def

section \<open>The probe, spelled out\<close>

text \<open>
  \<open>MakeRequest\<close> and the probe of a client in terms of what lies outside the
  repository only: the URL parser, the request constructor, the server and the decoder.
\<close>

lemma MakeRequest_unfold:
  "MakeRequest env t c method endpoint =
     (case url_Parse env (BaseURL c @ endpoint) of
        Inl err \<Rightarrow> (Inl (InvalidURL err), t)
      | Inr url \<Rightarrow>
          (case NewRequestWithContext env method url of
             Some err \<Rightarrow> (Inl (CreateRequestFailed err), t)
           | None \<Rightarrow>
               (case respond env (sent t)
                       \<lparr>Method = method, URL = url,
                        Header = [(''Ocs-Apirequest'', ''true''), (''Accept'', ''application/json''),
                                  (''Content-Type'', ''application/json''),
                                  (''User-Agent'', ''Steampipe-Nextcloud-Plugin/1.0'')],
                        BasicAuth = Some (ClientUsername c, ClientPassword c)\<rparr> of
                  Inl err \<Rightarrow> Inl (RequestFailed err)
                | Inr resp \<Rightarrow>
                    if StatusCode resp \<ge> 400
                    then Inl (APIError (StatusCode resp) (Body resp)) else Inr resp,
                t\<lparr>sent := sent t @
                   [\<lparr>Method = method, URL = url,
                     Header = [(''Ocs-Apirequest'', ''true''), (''Accept'', ''application/json''),
                               (''Content-Type'', ''application/json''),
                               (''User-Agent'', ''Steampipe-Nextcloud-Plugin/1.0'')],
                     BasicAuth = Some (ClientUsername c, ClientPassword c)\<rparr>]\<rparr>)))"
  by (simp add: MakeRequest_def Do_def Header_Set_def canonical_keys Let_def
      split: sum.splits option.splits)

lemma probe_unfold:
  "(case TestConnection env t c of
      (Some err, t') \<Rightarrow> (Inl (UnableToConnect err), t')
    | (None, t') \<Rightarrow> (Inr c, t')) =
     (case url_Parse env (BaseURL c @ ''ocs/v1.php/cloud/capabilities?format=json'') of
          Inl err \<Rightarrow> (Inl (UnableToConnect (ConnectionTestFailed (InvalidURL err))), t)
        | Inr url \<Rightarrow>
            (case NewRequestWithContext env ''GET'' url of
               Some err \<Rightarrow>
                 (Inl (UnableToConnect (ConnectionTestFailed (CreateRequestFailed err))), t)
             | None \<Rightarrow>
                 (case respond env (sent t)
                    \<lparr>Method = ''GET'', URL = url,
                     Header = [(''Ocs-Apirequest'', ''true''),
                               (''Accept'', ''application/json''),
                               (''Content-Type'', ''application/json''),
                               (''User-Agent'', ''Steampipe-Nextcloud-Plugin/1.0'')],
                     BasicAuth = Some (ClientUsername c, ClientPassword c)\<rparr> of
                    Inl err \<Rightarrow> Inl (UnableToConnect (ConnectionTestFailed (RequestFailed err)))
                  | Inr resp \<Rightarrow>
                      if StatusCode resp \<ge> 400
                      then Inl (UnableToConnect (ConnectionTestFailed
                                  (APIError (StatusCode resp) (Body resp))))
                      else (case decode_capabilities env (Body resp) of
                              Some err \<Rightarrow>
                                Inl (UnableToConnect (ConnectionTestFailed (JSONDecodeError err)))
                            | None \<Rightarrow> Inr c),
                  t\<lparr>sent := sent t @
                    [\<lparr>Method = ''GET'', URL = url,
                     Header = [(''Ocs-Apirequest'', ''true''),
                               (''Accept'', ''application/json''),
                               (''Content-Type'', ''application/json''),
                               (''User-Agent'', ''Steampipe-Nextcloud-Plugin/1.0'')],
                     BasicAuth = Some (ClientUsername c, ClientPassword c)\<rparr>]\<rparr>)))"
proof (cases "url_Parse env (BaseURL c @ ''ocs/v1.php/cloud/capabilities?format=json'')")
  case (Inl err)
  then show ?thesis
    by (simp add: TestConnection_def GetJSON_def MakeRequest_unfold)
next
  case (Inr url)
  note u = this
  show ?thesis
  proof (cases "NewRequestWithContext env ''GET'' url")
    case (Some err)
    with u show ?thesis
      by (simp add: TestConnection_def GetJSON_def MakeRequest_unfold)
  next
    case None
    note r = this
    show ?thesis
    proof (cases "respond env (sent t)
                    \<lparr>Method = ''GET'', URL = url,
                     Header = [(''Ocs-Apirequest'', ''true''),
                               (''Accept'', ''application/json''),
                               (''Content-Type'', ''application/json''),
                               (''User-Agent'', ''Steampipe-Nextcloud-Plugin/1.0'')],
                     BasicAuth = Some (ClientUsername c, ClientPassword c)\<rparr>")
      case (Inl err)
      with u r show ?thesis
        by (simp add: TestConnection_def GetJSON_def MakeRequest_unfold)
    next
      case (Inr resp)
      note d = this
      show ?thesis
      proof (cases "decode_capabilities env (Body resp)")
        case None
        with u r d show ?thesis
          by (simp add: TestConnection_def GetJSON_def MakeRequest_unfold)
      next
        case (Some err)
        with u r d show ?thesis
          by (simp add: TestConnection_def GetJSON_def MakeRequest_unfold)
      qed
    qed
  qed
qed

section \<open>Envelopes whose status is not ok\<close>

text \<open>
  Claim C1, as amended. After a client was built, for the activity list, the activity
  get and the share list handler: a response that decodes into an envelope whose
  status is not \<^verbatim>\<open>ok\<close> gives the handler's OCS error, made of the envelope's message
  and status code. The text of such an error contains the message and the decimal
  status code; the error is none of the transport's, and its text differs from the text
  of every error of the transport. The share get handler (\<open>getShare\<close>) reports such an
  envelope as \<^verbatim>\<open>share with ID <id> not found\<close> instead.
\<close>

theorem OCS_status_not_ok:
  assumes "GetClient env t (Connection d) = (Inr c, t1)"
  shows "(\<forall>resp t2 result.
            MakeRequest env t1 c ''GET'' ''ocs/v2.php/apps/activity/api/v2/activity?format=json''
              = (Inr resp, t2)
            \<and> decode_activities env (Body resp) = Inr result
            \<and> Status (Meta result) \<noteq> ''ok'' \<longrightarrow>
            listActivity env t d =
              (Inl (ActivityListOCSError (Message (Meta result)) (MetaStatusCode (Meta result))), t2)
            \<and> (\<forall>qual idInt. EqualsQuals d ''id'' = Some qual
                  \<and> ParseInt (GetStringValue qual) = Inr idInt \<longrightarrow>
                  getActivity env t d =
                    (Inl (ActivityGetOCSError (Message (Meta result))
                            (MetaStatusCode (Meta result))), t2)))
       \<and> (\<forall>resp t2 result.
            MakeRequest env t1 c ''GET'' ''ocs/v2.php/apps/files_sharing/api/v1/shares?format=json''
              = (Inr resp, t2)
            \<and> decode_shares env (Body resp) = Inr result
            \<and> Status (Meta result) \<noteq> ''ok'' \<longrightarrow>
            listShares env t d =
              (Inl (SharesOCSError (Message (Meta result)) (MetaStatusCode (Meta result))), t2))
       \<and> (\<forall>qual resp t2 result.
            EqualsQuals d ''id'' = Some qual
            \<and> MakeRequest env t1 c ''GET''
                (''ocs/v2.php/apps/files_sharing/api/v1/shares/'' @ fmt_d (GetInt64Value qual)
                   @ ''?format=json'') = (Inr resp, t2)
            \<and> decode_shares env (Body resp) = Inr result
            \<and> Status (Meta result) \<noteq> ''ok'' \<longrightarrow>
            getShare env t d = (Inl (ShareNotFound (GetInt64Value qual)), t2))
       \<and> (\<forall>msg code err.
            err = ActivityListOCSError msg code \<or> err = ActivityGetOCSError msg code
            \<or> err = SharesOCSError msg code \<longrightarrow>
            sublist msg (Error err) \<and> sublist (fmt_d code) (Error err)
            \<and> \<not> transport_failure err
            \<and> (\<forall>err'. transport_failure err' \<longrightarrow> Error err' \<noteq> Error err))"
proof (intro conjI)
  show "\<forall>resp t2 result.
            MakeRequest env t1 c ''GET'' ''ocs/v2.php/apps/activity/api/v2/activity?format=json''
              = (Inr resp, t2)
            \<and> decode_activities env (Body resp) = Inr result
            \<and> Status (Meta result) \<noteq> ''ok'' \<longrightarrow>
            listActivity env t d =
              (Inl (ActivityListOCSError (Message (Meta result)) (MetaStatusCode (Meta result))), t2)
            \<and> (\<forall>qual idInt. EqualsQuals d ''id'' = Some qual
                  \<and> ParseInt (GetStringValue qual) = Inr idInt \<longrightarrow>
                  getActivity env t d =
                    (Inl (ActivityGetOCSError (Message (Meta result))
                            (MetaStatusCode (Meta result))), t2))"
    using listActivity_decoded[OF assms] getActivity_decoded[OF _ _ assms]
    by simp
  show "\<forall>resp t2 result.
            MakeRequest env t1 c ''GET'' ''ocs/v2.php/apps/files_sharing/api/v1/shares?format=json''
              = (Inr resp, t2)
            \<and> decode_shares env (Body resp) = Inr result
            \<and> Status (Meta result) \<noteq> ''ok'' \<longrightarrow>
            listShares env t d =
              (Inl (SharesOCSError (Message (Meta result)) (MetaStatusCode (Meta result))), t2)"
    using listShares_decoded[OF assms] by simp
  show "\<forall>qual resp t2 result.
            EqualsQuals d ''id'' = Some qual
            \<and> MakeRequest env t1 c ''GET''
                (''ocs/v2.php/apps/files_sharing/api/v1/shares/'' @ fmt_d (GetInt64Value qual)
                   @ ''?format=json'') = (Inr resp, t2)
            \<and> decode_shares env (Body resp) = Inr result
            \<and> Status (Meta result) \<noteq> ''ok'' \<longrightarrow>
            getShare env t d = (Inl (ShareNotFound (GetInt64Value qual)), t2)"
    using getShare_decoded[OF _ assms] by simp
  show "\<forall>msg code err.
            err = ActivityListOCSError msg code \<or> err = ActivityGetOCSError msg code
            \<or> err = SharesOCSError msg code \<longrightarrow>
            sublist msg (Error err) \<and> sublist (fmt_d code) (Error err)
            \<and> \<not> transport_failure err
            \<and> (\<forall>err'. transport_failure err' \<longrightarrow> Error err' \<noteq> Error err)"
    using OCSError_text OCSError_not_transport_text by auto
qed



theorem OCS_status_not_ok_witness:
  "listActivity (example_env 200 ''{}'' meta_failure [] []) no_trace
      (example_query [''id'' \<mapsto> StringValue ''5''])
     = (Inl (ActivityListOCSError ''Current user is not logged in'' 997),
        \<lparr>sent = [probe_request, activity_request], streamed = []\<rparr>)
   \<and> getActivity (example_env 200 ''{}'' meta_failure [] []) no_trace
      (example_query [''id'' \<mapsto> StringValue ''5''])
     = (Inl (ActivityGetOCSError ''Current user is not logged in'' 997),
        \<lparr>sent = [probe_request, activity_request], streamed = []\<rparr>)
   \<and> listShares (example_env 200 ''{}'' meta_failure [] []) no_trace
      (example_query [''id'' \<mapsto> StringValue ''5''])
     = (Inl (SharesOCSError ''Current user is not logged in'' 997),
        \<lparr>sent = [probe_request, shares_request], streamed = []\<rparr>)
   \<and> getShare (example_env 200 ''{}'' meta_failure [] []) no_trace
      (example_query [''id'' \<mapsto> Int64Value 5])
     = (Inl (ShareNotFound 5), \<lparr>sent = [probe_request, share_request ''5''], streamed = []\<rparr>)
   \<and> Error (ActivityListOCSError ''Current user is not logged in'' 997)
     = ''erreur OCS API : Current user is not logged in (code : 997)''
   \<and> Error (ActivityGetOCSError ''Current user is not logged in'' 997)
     = ''OCS API error: Current user is not logged in (code: 997)''
   \<and> Error (SharesOCSError ''Current user is not logged in'' 997)
     = ''OCS API error: Current user is not logged in (code 997)''"
proof -
  let ?env = "example_env 200 ''{}'' meta_failure [] []"
  let ?d1 = "example_query [''id'' \<mapsto> StringValue ''5'']"
  let ?d2 = "example_query [''id'' \<mapsto> Int64Value 5]"
  let ?t1 = "no_trace\<lparr>sent := [probe_request]\<rparr>"
  let ?resp = "\<lparr>StatusCode = 200, Body = ''{}''\<rparr>"
  have c: "GetClient ?env no_trace (Connection (example_query q)) = (Inr example_client, ?t1)" for q
    by (simp add: run_simps example_query_def probe_request_def)
  have ma: "MakeRequest ?env ?t1 example_client ''GET''
             ''ocs/v2.php/apps/activity/api/v2/activity?format=json''
           = (Inr ?resp, \<lparr>sent = [probe_request, activity_request], streamed = []\<rparr>)"
    by (simp add: run_simps probe_request_def activity_request_def)
  have ms: "MakeRequest ?env ?t1 example_client ''GET''
             ''ocs/v2.php/apps/files_sharing/api/v1/shares?format=json''
           = (Inr ?resp, \<lparr>sent = [probe_request, shares_request], streamed = []\<rparr>)"
    by (simp add: run_simps probe_request_def shares_request_def)
  have five: "fmt_d 5 = ''5''"
    by (simp add: fmt_d_def digits.simps digit_char_def)
  have mg: "MakeRequest ?env ?t1 example_client ''GET''
             (''ocs/v2.php/apps/files_sharing/api/v1/shares/'' @ fmt_d (GetInt64Value (Int64Value 5))
                @ ''?format=json'')
           = (Inr ?resp, \<lparr>sent = [probe_request, share_request ''5''], streamed = []\<rparr>)"
    by (simp add: run_simps probe_request_def share_request_def GetInt64Value_def five)
  have da: "decode_activities ?env (Body ?resp) = Inr \<lparr>Meta = meta_failure, Data = []\<rparr>"
    by (simp add: example_env_def)
  have ds: "decode_shares ?env (Body ?resp) = Inr \<lparr>Meta = meta_failure, Data = []\<rparr>"
    by (simp add: example_env_def)
  have sa: "Status (Meta \<lparr>Meta = meta_failure, Data = ([] :: Activity list)\<rparr>) \<noteq> ''ok''"
    by (simp add: meta_failure_def)
  have ss: "Status (Meta \<lparr>Meta = meta_failure, Data = ([] :: ocsShare list)\<rparr>) \<noteq> ''ok''"
    by (simp add: meta_failure_def)
  have q1: "EqualsQuals ?d1 ''id'' = Some (StringValue ''5'')"
    by (simp add: example_query_def)
  have q2: "EqualsQuals ?d2 ''id'' = Some (Int64Value 5)"
    by (simp add: example_query_def)
  have p: "ParseInt (GetStringValue (StringValue ''5'')) = Inr 5"
    by (simp add: GetStringValue_def ParseInt_def ParseUint_def digit_of_def maxUint64_def
        int64_def)
  note a = OCS_status_not_ok[OF c, of "[''id'' \<mapsto> StringValue ''5'']", THEN conjunct1,
      rule_format, OF conjI[OF ma conjI[OF da sa]]]
  note la = a[THEN conjunct1]
  note ga = a[THEN conjunct2, rule_format, OF conjI[OF q1 p]]
  note ls = OCS_status_not_ok[OF c, of "[''id'' \<mapsto> StringValue ''5'']", THEN conjunct2,
      THEN conjunct1, rule_format, OF conjI[OF ms conjI[OF ds ss]]]
  note gs = OCS_status_not_ok[OF c, of "[''id'' \<mapsto> Int64Value 5]", THEN conjunct2,
      THEN conjunct2, THEN conjunct1, rule_format, OF conjI[OF q2 conjI[OF mg conjI[OF ds ss]]]]
  have n: "fmt_d 997 = ''997''"
    by (simp add: fmt_d_def digits.simps digit_char_def)
  from la ga ls gs show ?thesis
    by (simp add: meta_failure_def GetInt64Value_def n)
qed

text \<open>
  The claim as the specification words it includes the share get handler. There an
  envelope with a status other than \<^verbatim>\<open>ok\<close> gives the not-found error, whose text is
  made of the requested identifier alone: for the envelope below it holds neither the
  message nor the status code.
\<close>

theorem getShare_status_not_ok_is_not_found:
  "decode_shares (example_env 200 ''{}'' meta_failure [] []) ''{}''
     = Inr \<lparr>Meta = meta_failure, Data = []\<rparr>
   \<and> Status meta_failure \<noteq> ''ok''
   \<and> fst (getShare (example_env 200 ''{}'' meta_failure [] []) no_trace
            (example_query [''id'' \<mapsto> Int64Value 5])) = Inl (ShareNotFound 5)
   \<and> Error (ShareNotFound 5) = ''share with ID 5 not found''
   \<and> \<not> sublist (Message meta_failure) (Error (ShareNotFound 5))
   \<and> \<not> sublist (fmt_d (MetaStatusCode meta_failure)) (Error (ShareNotFound 5))"
proof -
  have five: "fmt_d 5 = ''5''"
    by (simp add: fmt_d_def digits.simps digit_char_def)
  have n: "fmt_d 997 = ''997''"
    by (simp add: fmt_d_def digits.simps digit_char_def)
  have run: "fst (getShare (example_env 200 ''{}'' meta_failure [] []) no_trace
            (example_query [''id'' \<mapsto> Int64Value 5])) = Inl (ShareNotFound 5)"
    by (simp add: table_simps2 five)
  have msg5: "Error (ShareNotFound 5) = ''share with ID 5 not found''"
    by (simp add: five)
  have "\<not> sublist ''Current user is not logged in'' ''share with ID 5 not found''"
    by (simp add: sublist_code)
  moreover have "\<not> sublist ''997'' ''share with ID 5 not found''"
    by (simp add: sublist_code)
  ultimately show ?thesis
    using run msg5 by (simp add: meta_failure_def example_env_def n)
qed

section \<open>The base URL of a constructed client\<close>

text \<open>
  Claim C2, as amended. For a configuration whose three settings are present and not
  empty, a client that \<open>NewNextcloudClient\<close> returns has the configured URL as its
  base URL when that URL already ends with the separator, and the configured URL with
  one separator appended otherwise. So the base URL always ends with the separator,
  and it ends with exactly one (not with two) whenever the configured URL did not end
  with two.
\<close>

theorem NewNextcloudClient_BaseURL:
  assumes "GetConfig conn = Inr (Some cfg)"
    and "ServerURL cfg = Some u" and "u \<noteq> []"
    and "Username cfg = Some n" and "n \<noteq> []"
    and "Password cfg = Some p" and "p \<noteq> []"
    and "NewNextcloudClient env t conn = (Inr c, t')"
  shows "BaseURL c = (if HasSuffix u ''/'' then u else u @ ''/'')
       \<and> HasSuffix (BaseURL c) ''/''
       \<and> (\<not> HasSuffix u ''//'' \<longrightarrow> \<not> HasSuffix (BaseURL c) ''//'')"
proof -
  from NewNextcloudClient_Inr[OF assms(8)] assms(1,2)
  have b: "BaseURL c = (if HasSuffix u ''/'' then u else u @ ''/'')" by auto
  then show ?thesis
    by (auto simp: HasSuffix_slash_append HasSuffix_two_slashes_append)
qed

theorem NewNextcloudClient_BaseURL_witness:
  "NewNextcloudClient (example_env 200 [] meta_ok [] []) no_trace example_connection
     = (Inr example_client, no_trace\<lparr>sent := [probe_request]\<rparr>)
   \<and> BaseURL example_client = ''https://cloud.example.com/''
   \<and> HasSuffix (BaseURL example_client) ''/''
   \<and> \<not> HasSuffix (BaseURL example_client) ''//''"
proof -
  have run: "NewNextcloudClient (example_env 200 [] meta_ok [] []) no_trace example_connection
     = (Inr example_client, no_trace\<lparr>sent := [probe_request]\<rparr>)"
    by (simp add: run_simps probe_request_def)
  have cfg: "GetConfig example_connection = Inr (Some example_config)"
    by (simp add: run_simps)
  show ?thesis
    using run NewNextcloudClient_BaseURL[OF cfg _ _ _ _ _ _ run,
        of "''https://cloud.example.com''" "''alice''" "''secret''"]
    by (simp add: example_config_def example_client_def HasSuffix_def)
qed

text \<open>
  The claim as the specification words it (exactly one trailing separator whatever the
  input ends with) fails for an input that ends with two separators: nothing is ever
  taken off the URL.
\<close>

theorem NewNextcloudClient_BaseURL_two_separators:
  "fst (NewNextcloudClient (example_env 200 [] meta_ok [] []) no_trace
          (Some \<lparr>Config = ConfigPointer (Some \<lparr>ServerURL = Some ''https://cloud.example.com//'',
             Username = Some ''alice'', Password = Some ''secret''\<rparr>)\<rparr>))
     = Inr \<lparr>BaseURL = ''https://cloud.example.com//'', ClientUsername = ''alice'',
            ClientPassword = ''secret'', Timeout = 30\<rparr>
   \<and> HasSuffix ''https://cloud.example.com//'' ''//''"
  by (simp add: run_simps)

section \<open>Rows of the activity list\<close>

text \<open>
  Claim C3. When the activity collection has been fetched and decoded with status
  \<^verbatim>\<open>ok\<close>, \<open>listActivity\<close> with the equality qualifier \<^verbatim>\<open>user_id = X\<close> streams exactly
  the records of the data array whose user is \<open>X\<close>, in their order, and with no such
  qualifier it streams every record of the data array; it returns no error. The rows
  are added to those streamed before; the requests sent are the probe and the fetch.
\<close>

theorem listActivity_emits:
  assumes "GetClient env t (Connection d) = (Inr c, t1)"
    and "MakeRequest env t1 c ''GET'' ''ocs/v2.php/apps/activity/api/v2/activity?format=json''
           = (Inr resp, t2)"
    and "decode_activities env (Body resp) = Inr result"
    and "Status (Meta result) = ''ok''"
  shows "(\<forall>X. EqualsQuals d ''user_id'' = Some (StringValue X) \<longrightarrow>
            listActivity env t d =
              (Inr None, t2\<lparr>streamed := streamed t @ map ActivityItem
                  (filter (\<lambda>activity. User activity = X) (Data result))\<rparr>))
       \<and> (EqualsQuals d ''user_id'' = None \<longrightarrow>
            listActivity env t d =
              (Inr None, t2\<lparr>streamed := streamed t @ map ActivityItem (Data result)\<rparr>))"
  using listActivity_decoded[OF assms(1,2,3)] assms(4)
  by (simp add: GetStringValue_def)


theorem listActivity_emits_witness:
  "listActivity (example_env 200 ''{}'' meta_ok [example_activity 1 ''a'', example_activity 2 ''b''] [])
      no_trace (example_query [''user_id'' \<mapsto> StringValue ''b''])
     = (Inr None, \<lparr>sent = [probe_request, activity_request],
                   streamed = [ActivityItem (example_activity 2 ''b'')]\<rparr>)
   \<and> listActivity (example_env 200 ''{}'' meta_ok [example_activity 1 ''a'', example_activity 2 ''b''] [])
      no_trace (example_query Map.empty)
     = (Inr None, \<lparr>sent = [probe_request, activity_request],
                   streamed = [ActivityItem (example_activity 1 ''a''),
                               ActivityItem (example_activity 2 ''b'')]\<rparr>)"
proof -
  let ?env = "example_env 200 ''{}'' meta_ok [example_activity 1 ''a'', example_activity 2 ''b''] []"
  let ?t1 = "no_trace\<lparr>sent := [probe_request]\<rparr>"
  let ?t2 = "\<lparr>sent = [probe_request, activity_request], streamed = []\<rparr>"
  let ?resp = "\<lparr>StatusCode = 200, Body = ''{}''\<rparr>"
  let ?result = "\<lparr>Meta = meta_ok, Data = [example_activity 1 ''a'', example_activity 2 ''b'']\<rparr>"
  have c: "GetClient ?env no_trace (Connection (example_query q)) = (Inr example_client, ?t1)" for q
    by (simp add: run_simps example_query_def probe_request_def)
  have m: "MakeRequest ?env ?t1 example_client ''GET''
             ''ocs/v2.php/apps/activity/api/v2/activity?format=json'' = (Inr ?resp, ?t2)"
    by (simp add: run_simps probe_request_def activity_request_def)
  have d: "decode_activities ?env (Body ?resp) = Inr ?result"
    by (simp add: example_env_def)
  have s: "Status (Meta ?result) = ''ok''"
    by (simp add: meta_ok_def)
  have f: "filter (\<lambda>activity. User activity = ''b'') [example_activity 1 ''a'', example_activity 2 ''b'']
      = [example_activity 2 ''b'']"
    by (simp add: example_activity_def)
  show ?thesis
    using listActivity_emits[OF c m d s, of "[''user_id'' \<mapsto> StringValue ''b'']"]
      listActivity_emits[OF c m d s, of Map.empty] f
    by (simp add: example_query_def no_trace_def)
qed

section \<open>Get by identifier when the record is absent\<close>

text \<open>
  Claim C4, as amended. After a client was built and the envelope decoded with status
  \<^verbatim>\<open>ok\<close>: \<open>getActivity\<close> returns the error \<^verbatim>\<open>activity with ID <id> not found\<close>
  whenever no record of the data array has the requested identifier (an empty array
  included), and \<open>getShare\<close> returns \<^verbatim>\<open>share with ID <id> not found\<close> when the data
  array is empty, and the first record of a data array that is not empty. Both are
  errors, so no record is returned with them; their texts contain the identifier. The text of the activity error differs from the text of every transport,
  decode and OCS error of \<open>getActivity\<close>; the text of the share error differs from
  the text of every transport and decode error of \<open>getShare\<close>.
\<close>

theorem get_not_found:
  assumes "EqualsQuals d ''id'' = Some qual"
    and "GetClient env t (Connection d) = (Inr c, t1)"
  shows "(\<forall>idInt resp t2 result.
            ParseInt (GetStringValue qual) = Inr idInt
            \<and> MakeRequest env t1 c ''GET'' ''ocs/v2.php/apps/activity/api/v2/activity?format=json''
                = (Inr resp, t2)
            \<and> decode_activities env (Body resp) = Inr result
            \<and> Status (Meta result) = ''ok''
            \<and> (\<forall>activity \<in> set (Data result). ActivityID activity \<noteq> idInt) \<longrightarrow>
            getActivity env t d = (Inl (ActivityNotFound (GetStringValue qual)), t2))
       \<and> (\<forall>resp t2 result.
            MakeRequest env t1 c ''GET''
                (''ocs/v2.php/apps/files_sharing/api/v1/shares/'' @ fmt_d (GetInt64Value qual)
                   @ ''?format=json'') = (Inr resp, t2)
            \<and> decode_shares env (Body resp) = Inr result
            \<and> Status (Meta result) = ''ok''
            \<and> Data result = [] \<longrightarrow>
            getShare env t d = (Inl (ShareNotFound (GetInt64Value qual)), t2))
       \<and> (\<forall>resp t2 result.
            MakeRequest env t1 c ''GET''
                (''ocs/v2.php/apps/files_sharing/api/v1/shares/'' @ fmt_d (GetInt64Value qual)
                   @ ''?format=json'') = (Inr resp, t2)
            \<and> decode_shares env (Body resp) = Inr result
            \<and> Status (Meta result) = ''ok''
            \<and> Data result \<noteq> [] \<longrightarrow>
            getShare env t d = (Inr (Some (ShareItem (hd (Data result)))), t2))
       \<and> sublist (GetStringValue qual) (Error (ActivityNotFound (GetStringValue qual)))
       \<and> sublist (fmt_d (GetInt64Value qual)) (Error (ShareNotFound (GetInt64Value qual)))
       \<and> (\<forall>err. transport_failure err \<or> (\<exists>x. err = ActivityDecodeFailed x)
                 \<or> (\<exists>m k. err = ActivityGetOCSError m k) \<longrightarrow>
                 Error err \<noteq> Error (ActivityNotFound (GetStringValue qual)))
       \<and> (\<forall>err. transport_failure err \<or> (\<exists>x. err = ShareDetailDecodeFailed x) \<longrightarrow>
                 Error err \<noteq> Error (ShareNotFound (GetInt64Value qual)))"
proof (intro conjI allI impI)
  fix idInt resp t2 result
  assume h: "ParseInt (GetStringValue qual) = Inr idInt
            \<and> MakeRequest env t1 c ''GET'' ''ocs/v2.php/apps/activity/api/v2/activity?format=json''
                = (Inr resp, t2)
            \<and> decode_activities env (Body resp) = Inr result
            \<and> Status (Meta result) = ''ok''
            \<and> (\<forall>activity \<in> set (Data result). ActivityID activity \<noteq> idInt)"
  then have "find (\<lambda>activity. ActivityID activity = idInt) (Data result) = None"
    by (simp add: find_None_iff)
  with h getActivity_decoded[OF assms(1) _ assms(2), of idInt resp t2 result]
  show "getActivity env t d = (Inl (ActivityNotFound (GetStringValue qual)), t2)"
    by simp
next
  fix resp t2 result
  assume h: "MakeRequest env t1 c ''GET''
                (''ocs/v2.php/apps/files_sharing/api/v1/shares/'' @ fmt_d (GetInt64Value qual)
                   @ ''?format=json'') = (Inr resp, t2)
            \<and> decode_shares env (Body resp) = Inr result
            \<and> Status (Meta result) = ''ok''
            \<and> Data result = []"
  with getShare_decoded[OF assms, of resp t2 result]
  show "getShare env t d = (Inl (ShareNotFound (GetInt64Value qual)), t2)"
    by simp
next
  fix resp t2 result
  assume h: "MakeRequest env t1 c ''GET''
                (''ocs/v2.php/apps/files_sharing/api/v1/shares/'' @ fmt_d (GetInt64Value qual)
                   @ ''?format=json'') = (Inr resp, t2)
            \<and> decode_shares env (Body resp) = Inr result
            \<and> Status (Meta result) = ''ok''
            \<and> Data result \<noteq> []"
  with getShare_decoded[OF assms, of resp t2 result]
  show "getShare env t d = (Inr (Some (ShareItem (hd (Data result)))), t2)"
    by simp
next
  show "sublist (GetStringValue qual) (Error (ActivityNotFound (GetStringValue qual)))"
    by (rule NotFound_text)
next
  show "sublist (fmt_d (GetInt64Value qual)) (Error (ShareNotFound (GetInt64Value qual)))"
    by (rule NotFound_text)
next
  fix err
  assume "transport_failure err \<or> (\<exists>x. err = ActivityDecodeFailed x)
                 \<or> (\<exists>m k. err = ActivityGetOCSError m k)"
  then show "Error err \<noteq> Error (ActivityNotFound (GetStringValue qual))"
    by (rule ActivityNotFound_text_distinct)
next
  fix err
  assume "transport_failure err \<or> (\<exists>x. err = ShareDetailDecodeFailed x)"
  then show "Error err \<noteq> Error (ShareNotFound (GetInt64Value qual))"
    by (rule ShareNotFound_text_distinct)
qed


theorem get_not_found_witness:
  "getActivity (example_env 200 ''{}'' meta_ok [example_activity 1 ''a'', example_activity 2 ''b''] [])
      no_trace (example_query [''id'' \<mapsto> StringValue ''999''])
     = (Inl (ActivityNotFound ''999''),
        \<lparr>sent = [probe_request, activity_request], streamed = []\<rparr>)
   \<and> Error (ActivityNotFound ''999'') = ''activity with ID 999 not found''
   \<and> getShare (example_env 200 ''{}'' meta_ok [] []) no_trace
      (example_query [''id'' \<mapsto> Int64Value 5])
     = (Inl (ShareNotFound 5), \<lparr>sent = [probe_request, share_request ''5''], streamed = []\<rparr>)
   \<and> Error (ShareNotFound 5) = ''share with ID 5 not found''
   \<and> getShare (example_env 200 ''{}'' meta_ok [] [example_share ''5'']) no_trace
      (example_query [''id'' \<mapsto> Int64Value 5])
     = (Inr (Some (ShareItem (example_share ''5''))),
        \<lparr>sent = [probe_request, share_request ''5''], streamed = []\<rparr>)"
proof -
  let ?enva = "example_env 200 ''{}'' meta_ok [example_activity 1 ''a'', example_activity 2 ''b''] []"
  let ?envs = "example_env 200 ''{}'' meta_ok [] []"
  let ?t1 = "no_trace\<lparr>sent := [probe_request]\<rparr>"
  let ?resp = "\<lparr>StatusCode = 200, Body = ''{}''\<rparr>"
  let ?ra = "\<lparr>Meta = meta_ok, Data = [example_activity 1 ''a'', example_activity 2 ''b'']\<rparr>"
  let ?rs = "\<lparr>Meta = meta_ok, Data = ([] :: ocsShare list)\<rparr>"
  have ca: "GetClient ?enva no_trace (Connection (example_query q)) = (Inr example_client, ?t1)" for q
    by (simp add: run_simps example_query_def probe_request_def)
  have cs: "GetClient ?envs no_trace (Connection (example_query q)) = (Inr example_client, ?t1)" for q
    by (simp add: run_simps example_query_def probe_request_def)
  have q1: "EqualsQuals (example_query [''id'' \<mapsto> StringValue ''999'']) ''id''
      = Some (StringValue ''999'')"
    by (simp add: example_query_def)
  have q2: "EqualsQuals (example_query [''id'' \<mapsto> Int64Value 5]) ''id'' = Some (Int64Value 5)"
    by (simp add: example_query_def)
  have five: "fmt_d 5 = ''5''"
    by (simp add: fmt_d_def digits.simps digit_char_def)
  have p: "ParseInt (GetStringValue (StringValue ''999'')) = Inr 999"
    by (simp add: GetStringValue_def ParseInt_def ParseUint_def digit_of_def maxUint64_def
        int64_def)
  have ma: "MakeRequest ?enva ?t1 example_client ''GET''
             ''ocs/v2.php/apps/activity/api/v2/activity?format=json''
           = (Inr ?resp, \<lparr>sent = [probe_request, activity_request], streamed = []\<rparr>)"
    by (simp add: run_simps probe_request_def activity_request_def)
  have mg: "MakeRequest ?envs ?t1 example_client ''GET''
             (''ocs/v2.php/apps/files_sharing/api/v1/shares/'' @ fmt_d (GetInt64Value (Int64Value 5))
                @ ''?format=json'')
           = (Inr ?resp, \<lparr>sent = [probe_request, share_request ''5''], streamed = []\<rparr>)"
    by (simp add: run_simps probe_request_def share_request_def GetInt64Value_def five)
  have da: "decode_activities ?enva (Body ?resp) = Inr ?ra"
    by (simp add: example_env_def)
  have ds: "decode_shares ?envs (Body ?resp) = Inr ?rs"
    by (simp add: example_env_def)
  have sa: "Status (Meta ?ra) = ''ok''" and ss: "Status (Meta ?rs) = ''ok''"
    by (simp_all add: meta_ok_def)
  have absent: "\<forall>activity \<in> set (Data ?ra). ActivityID activity \<noteq> 999"
    by (simp add: example_activity_def)
  have e: "Data ?rs = []" by simp
  note ga = get_not_found[OF q1 ca, THEN conjunct1, rule_format,
      OF conjI[OF p conjI[OF ma conjI[OF da conjI[OF sa absent]]]]]
  note gs = get_not_found[OF q2 cs, THEN conjunct2, THEN conjunct1, rule_format,
      OF conjI[OF mg conjI[OF ds conjI[OF ss e]]]]
  let ?envf = "example_env 200 ''{}'' meta_ok [] [example_share ''5'']"
  let ?rf = "\<lparr>Meta = meta_ok, Data = [example_share ''5'']\<rparr>"
  have cf: "GetClient ?envf no_trace (Connection (example_query q)) = (Inr example_client, ?t1)" for q
    by (simp add: run_simps example_query_def probe_request_def)
  have mf: "MakeRequest ?envf ?t1 example_client ''GET''
             (''ocs/v2.php/apps/files_sharing/api/v1/shares/'' @ fmt_d (GetInt64Value (Int64Value 5))
                @ ''?format=json'')
           = (Inr ?resp, \<lparr>sent = [probe_request, share_request ''5''], streamed = []\<rparr>)"
    by (simp add: run_simps probe_request_def share_request_def GetInt64Value_def five)
  have df: "decode_shares ?envf (Body ?resp) = Inr ?rf"
    by (simp add: example_env_def)
  have sf: "Status (Meta ?rf) = ''ok''" and nf: "Data ?rf \<noteq> []"
    by (simp_all add: meta_ok_def)
  note gf = get_not_found[OF q2 cf, THEN conjunct2, THEN conjunct2, THEN conjunct1, rule_format,
      OF conjI[OF mf conjI[OF df conjI[OF sf nf]]]]
  from ga gs gf show ?thesis
    by (simp add: GetStringValue_def GetInt64Value_def five)
qed

text \<open>
  The claim as the specification words it covers every data array that holds no record
  of the requested identifier. \<open>getShare\<close> compares no identifier: from a data array
  that is not empty it returns the first record, here the share 7 for the request 5.
\<close>

theorem getShare_returns_other_record:
  "Status meta_ok = ''ok''
   \<and> filter (\<lambda>share. ID share = fmt_d 5) [example_share ''7''] = []
   \<and> fst (getShare (example_env 200 ''{}'' meta_ok [] [example_share ''7'']) no_trace
            (example_query [''id'' \<mapsto> Int64Value 5]))
       = Inr (Some (ShareItem (example_share ''7'')))"
proof -
  have five: "fmt_d 5 = ''5''"
    by (simp add: fmt_d_def digits.simps digit_char_def)
  show ?thesis
    by (simp add: table_simps3 five)
qed

section \<open>Responses with status 400 and above\<close>

text \<open>
  Claim C5. Whatever \<open>MakeRequest\<close> returns, a response it hands back as a success has
  a status below 400; and when a request was executed (the trace grew by that request)
  and its response has a status of at least 400, the result is the error
  \<^verbatim>\<open>Nextcloud API error <status>: <body>\<close>, whose text contains the decimal status and
  the raw body. The body is any byte string: nothing decodes it.
\<close>

theorem MakeRequest_error_status:
  assumes "MakeRequest env t c method endpoint = (r, t')"
  shows "(\<forall>resp. r = Inr resp \<longrightarrow> StatusCode resp < 400)
       \<and> (\<forall>req resp. sent t' = sent t @ [req] \<and> respond env (sent t) req = Inr resp
              \<and> 400 \<le> StatusCode resp \<longrightarrow>
            r = Inl (APIError (StatusCode resp) (Body resp))
            \<and> sublist (fmt_d (StatusCode resp)) (Error (APIError (StatusCode resp) (Body resp)))
            \<and> sublist (Body resp) (Error (APIError (StatusCode resp) (Body resp))))"
proof -
  have msg: "sublist (fmt_d n) (Error (APIError n b)) \<and> sublist b (Error (APIError n b))" for n b
    unfolding Error.simps
    by (intro conjI sublist_appendI sublist_skip sublist_order.order_refl)
  from MakeRequest_cases[OF assms] show ?thesis
  proof
    assume "t' = t \<and> (\<exists>err. r = Inl (InvalidURL err) \<or> r = Inl (CreateRequestFailed err))"
    then show ?thesis by auto
  next
    assume "\<exists>req. t' = t\<lparr>sent := sent t @ [req]\<rparr> \<and>
            (case respond env (sent t) req of
               Inl err \<Rightarrow> r = Inl (RequestFailed err)
             | Inr resp \<Rightarrow> r = (if StatusCode resp \<ge> 400
                                then Inl (APIError (StatusCode resp) (Body resp)) else Inr resp))"
    then obtain req where req: "t' = t\<lparr>sent := sent t @ [req]\<rparr>"
      "case respond env (sent t) req of
               Inl err \<Rightarrow> r = Inl (RequestFailed err)
             | Inr resp \<Rightarrow> r = (if StatusCode resp \<ge> 400
                                then Inl (APIError (StatusCode resp) (Body resp)) else Inr resp)"
      by blast
    show ?thesis
    proof (intro conjI allI impI)
      fix resp assume "r = Inr resp"
      with req(2) show "StatusCode resp < 400"
        by (auto split: sum.splits if_splits)
    next
      fix req' resp
      assume h: "sent t' = sent t @ [req'] \<and> respond env (sent t) req' = Inr resp \<and> 400 \<le> StatusCode resp"
      with req(1) have "req' = req" by simp
      with h req(2) show "r = Inl (APIError (StatusCode resp) (Body resp))" by simp
    next
      fix req' resp
      show "sublist (fmt_d (StatusCode resp)) (Error (APIError (StatusCode resp) (Body resp)))"
        using msg by blast
    next
      fix req' resp
      show "sublist (Body resp) (Error (APIError (StatusCode resp) (Body resp)))"
        using msg by blast
    qed
  qed
qed

theorem MakeRequest_error_status_witness:
  "MakeRequest (example_env 502 ''<html>Bad Gateway</html>'' meta_ok [] []) no_trace example_client
      ''GET'' ''ocs/v2.php/apps/activity/api/v2/activity?format=json''
     = (Inl (APIError 502 ''<html>Bad Gateway</html>''),
        no_trace\<lparr>sent := [\<lparr>Method = ''GET'',
           URL = ''https://cloud.example.com/ocs/v2.php/apps/activity/api/v2/activity?format=json'',
           Header = [(''Ocs-Apirequest'', ''true''), (''Accept'', ''application/json''),
                     (''Content-Type'', ''application/json''),
                     (''User-Agent'', ''Steampipe-Nextcloud-Plugin/1.0'')],
           BasicAuth = Some (''alice'', ''secret'')\<rparr>]\<rparr>)
   \<and> Error (APIError 502 ''<html>Bad Gateway</html>'')
       = ''Nextcloud API error 502: <html>Bad Gateway</html>''
   \<and> sublist (fmt_d 502) (Error (APIError 502 ''<html>Bad Gateway</html>''))
   \<and> sublist ''<html>Bad Gateway</html>'' (Error (APIError 502 ''<html>Bad Gateway</html>''))"
proof -
  let ?env = "example_env 502 ''<html>Bad Gateway</html>'' meta_ok [] []"
  let ?req = "\<lparr>Method = ''GET'',
           URL = ''https://cloud.example.com/ocs/v2.php/apps/activity/api/v2/activity?format=json'',
           Header = [(''Ocs-Apirequest'', ''true''), (''Accept'', ''application/json''),
                     (''Content-Type'', ''application/json''),
                     (''User-Agent'', ''Steampipe-Nextcloud-Plugin/1.0'')],
           BasicAuth = Some (''alice'', ''secret'')\<rparr>"
  have run: "MakeRequest ?env no_trace example_client
      ''GET'' ''ocs/v2.php/apps/activity/api/v2/activity?format=json''
     = (Inl (APIError 502 ''<html>Bad Gateway</html>''), no_trace\<lparr>sent := [?req]\<rparr>)"
    by (simp add: example_simps)
  have resp: "respond ?env (sent no_trace) ?req = Inr \<lparr>StatusCode = 502, Body = ''<html>Bad Gateway</html>''\<rparr>"
    by (simp add: example_simps)
  have sent: "sent (no_trace\<lparr>sent := [?req]\<rparr>) = sent no_trace @ [?req]"
    by (simp add: no_trace_def)
  have "sublist (fmt_d 502) (Error (APIError 502 ''<html>Bad Gateway</html>''))
      \<and> sublist ''<html>Bad Gateway</html>'' (Error (APIError 502 ''<html>Bad Gateway</html>''))"
    using MakeRequest_error_status[OF run, THEN conjunct2, rule_format,
        of ?req "\<lparr>StatusCode = 502, Body = ''<html>Bad Gateway</html>''\<rparr>"] sent resp
    by simp
  with run show ?thesis
    by (simp add: fmt_d_def digits.simps digit_char_def)
qed

section \<open>Missing settings\<close>

text \<open>
  Claim C6. For a configuration in which a required setting is nil or the empty string,
  \<open>NewNextcloudClient\<close> fails before any request is sent (the trace is unchanged), with
  the error of the first missing setting in the order server_url, username, password;
  the text of that error names the setting. A configuration with exactly one missing
  setting therefore fails with the error that names it.
\<close>

theorem NewNextcloudClient_missing_field:
  assumes "GetConfig conn = Inr (Some cfg)"
  shows "(ServerURL cfg = None \<or> ServerURL cfg = Some [] \<longrightarrow>
            NewNextcloudClient env t conn = (Inl ServerURLMissing, t))
       \<and> (ServerURL cfg \<noteq> None \<and> ServerURL cfg \<noteq> Some []
            \<and> (Username cfg = None \<or> Username cfg = Some []) \<longrightarrow>
            NewNextcloudClient env t conn = (Inl UsernameMissing, t))
       \<and> (ServerURL cfg \<noteq> None \<and> ServerURL cfg \<noteq> Some []
            \<and> Username cfg \<noteq> None \<and> Username cfg \<noteq> Some []
            \<and> (Password cfg = None \<or> Password cfg = Some []) \<longrightarrow>
            NewNextcloudClient env t conn = (Inl PasswordMissing, t))
       \<and> sublist ''server_url'' (Error ServerURLMissing)
       \<and> sublist ''username'' (Error UsernameMissing)
       \<and> sublist ''password'' (Error PasswordMissing)"
proof -
  have a: "ServerURL cfg = None \<or> ServerURL cfg = Some [] \<Longrightarrow>
            NewNextcloudClient env t conn = (Inl ServerURLMissing, t)"
    using assms by (auto simp: NewNextcloudClient_def)
  have b: "ServerURL cfg \<noteq> None \<and> ServerURL cfg \<noteq> Some []
            \<and> (Username cfg = None \<or> Username cfg = Some []) \<Longrightarrow>
            NewNextcloudClient env t conn = (Inl UsernameMissing, t)"
    using assms by (auto simp: NewNextcloudClient_def)
  have c: "ServerURL cfg \<noteq> None \<and> ServerURL cfg \<noteq> Some []
            \<and> Username cfg \<noteq> None \<and> Username cfg \<noteq> Some []
            \<and> (Password cfg = None \<or> Password cfg = Some []) \<Longrightarrow>
            NewNextcloudClient env t conn = (Inl PasswordMissing, t)"
    using assms by (auto simp: NewNextcloudClient_def)
  have d: "sublist ''server_url'' (Error ServerURLMissing)"
    "sublist ''username'' (Error UsernameMissing)"
    "sublist ''password'' (Error PasswordMissing)"
    by (simp_all add: sublist_code)
  from a b c d show ?thesis by blast
qed

theorem NewNextcloudClient_missing_field_witness:
  "NewNextcloudClient unreachable_env no_trace
      (Some \<lparr>Config = ConfigPointer (Some (example_config\<lparr>ServerURL := Some []\<rparr>))\<rparr>)
     = (Inl ServerURLMissing, no_trace)
   \<and> NewNextcloudClient unreachable_env no_trace
      (Some \<lparr>Config = ConfigValue (example_config\<lparr>Username := None\<rparr>)\<rparr>)
     = (Inl UsernameMissing, no_trace)
   \<and> NewNextcloudClient unreachable_env no_trace
      (Some \<lparr>Config = ConfigPointer (Some (example_config\<lparr>Password := Some []\<rparr>))\<rparr>)
     = (Inl PasswordMissing, no_trace)
   \<and> NewNextcloudClient unreachable_env no_trace None = (Inl ServerURLMissing, no_trace)
   \<and> Error ServerURLMissing = ''server_url must be configured''
   \<and> Error UsernameMissing = ''username must be configured''
   \<and> Error PasswordMissing = ''password must be configured''"
proof -
  have c1: "GetConfig (Some \<lparr>Config = ConfigPointer (Some (example_config\<lparr>ServerURL := Some []\<rparr>))\<rparr>)
      = Inr (Some (example_config\<lparr>ServerURL := Some []\<rparr>))"
    by (simp add: GetConfig_def Config_of_def)
  have c2: "GetConfig (Some \<lparr>Config = ConfigValue (example_config\<lparr>Username := None\<rparr>)\<rparr>)
      = Inr (Some (example_config\<lparr>Username := None\<rparr>))"
    by (simp add: GetConfig_def Config_of_def)
  have c3: "GetConfig (Some \<lparr>Config = ConfigPointer (Some (example_config\<lparr>Password := Some []\<rparr>))\<rparr>)
      = Inr (Some (example_config\<lparr>Password := Some []\<rparr>))"
    by (simp add: GetConfig_def Config_of_def)
  have c4: "GetConfig None = Inr (Some empty_config)"
    by (simp add: GetConfig_def)
  show ?thesis
    using NewNextcloudClient_missing_field[OF c1, of unreachable_env no_trace]
      NewNextcloudClient_missing_field[OF c2, of unreachable_env no_trace]
      NewNextcloudClient_missing_field[OF c3, of unreachable_env no_trace]
      NewNextcloudClient_missing_field[OF c4, of unreachable_env no_trace]
    by (simp add: example_config_def empty_config_def)
qed

section \<open>The connectivity probe of client construction\<close>

text \<open>
  Claim C7. Once the three settings are found present, \<open>NewNextcloudClient\<close> builds the
  client and probes: it parses the URL of the capabilities endpoint under the client's
  base URL, builds the \<^verbatim>\<open>GET\<close> request with the four headers and the credentials, sends
  it, and decodes the answer. Its result is, case by case: the wrapped error of the
  parser or of the request constructor, with nothing sent; otherwise the capabilities
  request is sent, and the result is the wrapped error of the round trip, of a status of
  400 or above, or of the decoder, and the client only when all three succeeded.
  Whatever the connection, a client is returned only when its probe succeeded: one
  request was sent, to the capabilities endpoint under the client's base URL, it was
  answered with a status below 400, and the answer decoded. The error of a failed probe
  reads \<^verbatim>\<open>unable to connect to Nextcloud: connection test failed: <cause>\<close>.
\<close>

theorem NewNextcloudClient_probe:
  "(\<forall>cfg u n p.
       GetConfig conn = Inr (Some cfg) \<and> ServerURL cfg = Some u \<and> u \<noteq> []
       \<and> Username cfg = Some n \<and> n \<noteq> [] \<and> Password cfg = Some p \<and> p \<noteq> [] \<longrightarrow>
       NewNextcloudClient env t conn =
         (let c = \<lparr>BaseURL = (if HasSuffix u ''/'' then u else u @ ''/''),
                   ClientUsername = n, ClientPassword = p, Timeout = 30\<rparr>
          in case url_Parse env (BaseURL c @ ''ocs/v1.php/cloud/capabilities?format=json'') of
          Inl err \<Rightarrow> (Inl (UnableToConnect (ConnectionTestFailed (InvalidURL err))), t)
        | Inr url \<Rightarrow>
            (case NewRequestWithContext env ''GET'' url of
               Some err \<Rightarrow>
                 (Inl (UnableToConnect (ConnectionTestFailed (CreateRequestFailed err))), t)
             | None \<Rightarrow>
                 (case respond env (sent t)
                    \<lparr>Method = ''GET'', URL = url,
                     Header = [(''Ocs-Apirequest'', ''true''),
                               (''Accept'', ''application/json''),
                               (''Content-Type'', ''application/json''),
                               (''User-Agent'', ''Steampipe-Nextcloud-Plugin/1.0'')],
                     BasicAuth = Some (n, p)\<rparr> of
                    Inl err \<Rightarrow> Inl (UnableToConnect (ConnectionTestFailed (RequestFailed err)))
                  | Inr resp \<Rightarrow>
                      if StatusCode resp \<ge> 400
                      then Inl (UnableToConnect (ConnectionTestFailed
                                  (APIError (StatusCode resp) (Body resp))))
                      else (case decode_capabilities env (Body resp) of
                              Some err \<Rightarrow>
                                Inl (UnableToConnect (ConnectionTestFailed (JSONDecodeError err)))
                            | None \<Rightarrow> Inr c),
                  t\<lparr>sent := sent t @
                    [\<lparr>Method = ''GET'', URL = url,
                     Header = [(''Ocs-Apirequest'', ''true''),
                               (''Accept'', ''application/json''),
                               (''Content-Type'', ''application/json''),
                               (''User-Agent'', ''Steampipe-Nextcloud-Plugin/1.0'')],
                     BasicAuth = Some (n, p)\<rparr>]\<rparr>))))
   \<and> (\<forall>c t'. NewNextcloudClient env t conn = (Inr c, t') \<longrightarrow>
         TestConnection env t c = (None, t')
         \<and> (\<exists>req resp. sent t' = sent t @ [req]
               \<and> url_Parse env (BaseURL c @ ''ocs/v1.php/cloud/capabilities?format=json'')
                   = Inr (URL req)
               \<and> Method req = ''GET''
               \<and> respond env (sent t) req = Inr resp
               \<and> StatusCode resp < 400
               \<and> decode_capabilities env (Body resp) = None))
   \<and> (\<forall>c err t'. TestConnection env t c = (Some err, t') \<longrightarrow>
         (\<exists>e. err = ConnectionTestFailed e
            \<and> Error (UnableToConnect err)
                = ''unable to connect to Nextcloud: connection test failed: '' @ Error e))
   \<and> (\<forall>e. Error (UnableToConnect (ConnectionTestFailed e))
            = ''unable to connect to Nextcloud: connection test failed: '' @ Error e)"
proof (intro conjI allI impI)
  fix cfg u n p
  assume h: "GetConfig conn = Inr (Some cfg) \<and> ServerURL cfg = Some u \<and> u \<noteq> []
       \<and> Username cfg = Some n \<and> n \<noteq> [] \<and> Password cfg = Some p \<and> p \<noteq> []"
  let ?c = "\<lparr>BaseURL = (if HasSuffix u ''/'' then u else u @ ''/''),
             ClientUsername = n, ClientPassword = p, Timeout = 30\<rparr>"
  have v: "NewNextcloudClient env t conn =
     (case TestConnection env t ?c of
        (Some err, t') \<Rightarrow> (Inl (UnableToConnect err), t')
      | (None, t') \<Rightarrow> (Inr ?c, t'))"
    using h NewNextcloudClient_valid by blast
  have sel: "ClientUsername ?c = n" "ClientPassword ?c = p"
    by simp_all
  show "NewNextcloudClient env t conn =
         (let c = \<lparr>BaseURL = (if HasSuffix u ''/'' then u else u @ ''/''),
                   ClientUsername = n, ClientPassword = p, Timeout = 30\<rparr>
          in case url_Parse env (BaseURL c @ ''ocs/v1.php/cloud/capabilities?format=json'') of
          Inl err \<Rightarrow> (Inl (UnableToConnect (ConnectionTestFailed (InvalidURL err))), t)
        | Inr url \<Rightarrow>
            (case NewRequestWithContext env ''GET'' url of
               Some err \<Rightarrow>
                 (Inl (UnableToConnect (ConnectionTestFailed (CreateRequestFailed err))), t)
             | None \<Rightarrow>
                 (case respond env (sent t)
                    \<lparr>Method = ''GET'', URL = url,
                     Header = [(''Ocs-Apirequest'', ''true''),
                               (''Accept'', ''application/json''),
                               (''Content-Type'', ''application/json''),
                               (''User-Agent'', ''Steampipe-Nextcloud-Plugin/1.0'')],
                     BasicAuth = Some (n, p)\<rparr> of
                    Inl err \<Rightarrow> Inl (UnableToConnect (ConnectionTestFailed (RequestFailed err)))
                  | Inr resp \<Rightarrow>
                      if StatusCode resp \<ge> 400
                      then Inl (UnableToConnect (ConnectionTestFailed
                                  (APIError (StatusCode resp) (Body resp))))
                      else (case decode_capabilities env (Body resp) of
                              Some err \<Rightarrow>
                                Inl (UnableToConnect (ConnectionTestFailed (JSONDecodeError err)))
                            | None \<Rightarrow> Inr c),
                  t\<lparr>sent := sent t @
                    [\<lparr>Method = ''GET'', URL = url,
                     Header = [(''Ocs-Apirequest'', ''true''),
                               (''Accept'', ''application/json''),
                               (''Content-Type'', ''application/json''),
                               (''User-Agent'', ''Steampipe-Nextcloud-Plugin/1.0'')],
                     BasicAuth = Some (n, p)\<rparr>]\<rparr>)))"
    unfolding Let_def v probe_unfold sel by (rule refl)
next
  fix c t'
  assume a: "NewNextcloudClient env t conn = (Inr c, t')"
  from NewNextcloudClient_Inr[OF a] show "TestConnection env t c = (None, t')" by blast
next
  fix c t'
  assume a: "NewNextcloudClient env t conn = (Inr c, t')"
  from NewNextcloudClient_Inr[OF a] have "TestConnection env t c = (None, t')" by blast
  from TestConnection_None[OF this]
  show "\<exists>req resp. sent t' = sent t @ [req]
               \<and> url_Parse env (BaseURL c @ ''ocs/v1.php/cloud/capabilities?format=json'')
                   = Inr (URL req)
               \<and> Method req = ''GET''
               \<and> respond env (sent t) req = Inr resp
               \<and> StatusCode resp < 400
               \<and> decode_capabilities env (Body resp) = None"
    by fastforce
next
  fix c err t'
  assume "TestConnection env t c = (Some err, t')"
  from TestConnection_Some[OF this] obtain e where "err = ConnectionTestFailed e" by blast
  then show "\<exists>e. err = ConnectionTestFailed e
            \<and> Error (UnableToConnect err)
                = ''unable to connect to Nextcloud: connection test failed: '' @ Error e"
    by simp
next
  fix e
  show "Error (UnableToConnect (ConnectionTestFailed e))
            = ''unable to connect to Nextcloud: connection test failed: '' @ Error e"
    by simp
qed


theorem NewNextcloudClient_probe_witness:
  "NewNextcloudClient (example_env 200 [] meta_ok [] []) no_trace example_connection
     = (Inr example_client, no_trace\<lparr>sent := [probe_request]\<rparr>)
   \<and> TestConnection (example_env 200 [] meta_ok [] []) no_trace example_client
     = (None, no_trace\<lparr>sent := [probe_request]\<rparr>)
   \<and> NewNextcloudClient unreachable_env no_trace example_connection
     = (Inl (UnableToConnect (ConnectionTestFailed (RequestFailed ''dial tcp: connection refused''))),
        no_trace\<lparr>sent := [probe_request]\<rparr>)
   \<and> Error (UnableToConnect (ConnectionTestFailed (RequestFailed ''dial tcp: connection refused'')))
     = ''unable to connect to Nextcloud: connection test failed: request failed: dial tcp: connection refused''"
proof -
  have cfg: "GetConfig example_connection = Inr (Some example_config)
      \<and> ServerURL example_config = Some ''https://cloud.example.com''
      \<and> ''https://cloud.example.com'' \<noteq> []
      \<and> Username example_config = Some ''alice'' \<and> ''alice'' \<noteq> []
      \<and> Password example_config = Some ''secret'' \<and> ''secret'' \<noteq> []"
    by (simp add: run_simps)
  have ok: "TestConnection (example_env 200 [] meta_ok [] []) no_trace example_client
     = (None, no_trace\<lparr>sent := [probe_request]\<rparr>)"
    by (simp add: run_simps probe_request_def)
  from NewNextcloudClient_probe[of example_connection "example_env 200 [] meta_ok [] []" no_trace,
      THEN conjunct1, rule_format, OF cfg]
  have r1: "NewNextcloudClient (example_env 200 [] meta_ok [] []) no_trace example_connection
     = (Inr example_client, no_trace\<lparr>sent := [probe_request]\<rparr>)"
    by (simp add: example_env_def no_trace_def example_client_def probe_request_def
        HasSuffix_def Let_def)
  from NewNextcloudClient_probe[of example_connection unreachable_env no_trace,
      THEN conjunct1, rule_format, OF cfg]
  have r2: "NewNextcloudClient unreachable_env no_trace example_connection
     = (Inl (UnableToConnect (ConnectionTestFailed (RequestFailed ''dial tcp: connection refused''))),
        no_trace\<lparr>sent := [probe_request]\<rparr>)"
    by (simp add: unreachable_env_def example_env_def no_trace_def probe_request_def
        HasSuffix_def Let_def)
  from r1 r2 ok show ?thesis by simp
qed

section \<open>Identifiers of get by identifier\<close>

text \<open>
  Claim C9. For every \<open>v\<close> of the 64-bit signed range, \<^verbatim>\<open>strconv.ParseInt\<close> gives
  back \<open>v\<close> from its decimal numeral. So \<open>getActivity\<close>, given the numeral as the
  string qualifier \<^verbatim>\<open>id\<close>, returns the first record whose \<^verbatim>\<open>ActivityID\<close> is exactly
  \<open>v\<close>, or the not-found error of that numeral; and \<open>getShare\<close>, given \<open>v\<close> as the
  integer qualifier, requests the share endpoint of exactly the numeral of \<open>v\<close>.
\<close>

theorem identifier_exact:
  assumes "- (2 ^ 63) \<le> v" and "v < 2 ^ 63"
  shows "ParseInt (fmt_d v) = Inr v
       \<and> (\<forall>env t d c t1 resp t2 result.
            EqualsQuals d ''id'' = Some (StringValue (fmt_d v))
            \<and> GetClient env t (Connection d) = (Inr c, t1)
            \<and> MakeRequest env t1 c ''GET'' ''ocs/v2.php/apps/activity/api/v2/activity?format=json''
                = (Inr resp, t2)
            \<and> decode_activities env (Body resp) = Inr result
            \<and> Status (Meta result) = ''ok'' \<longrightarrow>
            getActivity env t d =
              (case find (\<lambda>activity. ActivityID activity = v) (Data result) of
                 Some activity \<Rightarrow> (Inr (Some (ActivityItem activity)), t2)
               | None \<Rightarrow> (Inl (ActivityNotFound (fmt_d v)), t2)))
       \<and> (\<forall>env t d c t1 resp t2 result.
            EqualsQuals d ''id'' = Some (Int64Value v)
            \<and> GetClient env t (Connection d) = (Inr c, t1)
            \<and> MakeRequest env t1 c ''GET''
                (''ocs/v2.php/apps/files_sharing/api/v1/shares/'' @ fmt_d v @ ''?format=json'')
                = (Inr resp, t2)
            \<and> decode_shares env (Body resp) = Inr result
            \<and> Status (Meta result) = ''ok'' \<and> Data result \<noteq> [] \<longrightarrow>
            getShare env t d = (Inr (Some (ShareItem (hd (Data result)))), t2))"
proof (intro conjI allI impI)
  show p: "ParseInt (fmt_d v) = Inr v"
    using assms by (rule ParseInt_fmt_d)
  fix env t and d :: QueryData and c t1 resp t2 result
  {
    assume h: "EqualsQuals d ''id'' = Some (StringValue (fmt_d v))
            \<and> GetClient env t (Connection d) = (Inr c, t1)
            \<and> MakeRequest env t1 c ''GET'' ''ocs/v2.php/apps/activity/api/v2/activity?format=json''
                = (Inr resp, t2)
            \<and> decode_activities env (Body resp) = Inr result
            \<and> Status (Meta result) = ''ok''"
    have g: "GetStringValue (StringValue (fmt_d v)) = fmt_d v"
      by (simp add: GetStringValue_def)
    from h getActivity_decoded[of d "StringValue (fmt_d v)" v env t c t1 resp t2 result,
        unfolded g] p
    show "getActivity env t d =
              (case find (\<lambda>activity. ActivityID activity = v) (Data result) of
                 Some activity \<Rightarrow> (Inr (Some (ActivityItem activity)), t2)
               | None \<Rightarrow> (Inl (ActivityNotFound (fmt_d v)), t2))"
      by simp
  }
  {
    assume h: "EqualsQuals d ''id'' = Some (Int64Value v)
            \<and> GetClient env t (Connection d) = (Inr c, t1)
            \<and> MakeRequest env t1 c ''GET''
                (''ocs/v2.php/apps/files_sharing/api/v1/shares/'' @ fmt_d v @ ''?format=json'')
                = (Inr resp, t2)
            \<and> decode_shares env (Body resp) = Inr result
            \<and> Status (Meta result) = ''ok'' \<and> Data result \<noteq> []"
    have g: "GetInt64Value (Int64Value v) = v"
      by (simp add: GetInt64Value_def)
    from h getShare_decoded[of d "Int64Value v" env t c t1 resp t2 result, unfolded g]
    show "getShare env t d = (Inr (Some (ShareItem (hd (Data result)))), t2)"
      by simp
  }
qed

theorem identifier_exact_witness:
  "ParseInt ''9007199254740993'' = Inr 9007199254740993
   \<and> ParseInt ''-9223372036854775808'' = Inr (- 9223372036854775808)
   \<and> getActivity (example_env 200 ''{}'' meta_ok
        [example_activity 9007199254740992 ''a'', example_activity 9007199254740993 ''b''] [])
      no_trace (example_query [''id'' \<mapsto> StringValue ''9007199254740993''])
     = (Inr (Some (ActivityItem (example_activity 9007199254740993 ''b''))),
        \<lparr>sent = [probe_request, activity_request], streamed = []\<rparr>)
   \<and> getShare (example_env 200 ''{}'' meta_ok [] [example_share ''9007199254740993'']) no_trace
      (example_query [''id'' \<mapsto> Int64Value 9007199254740993])
     = (Inr (Some (ShareItem (example_share ''9007199254740993''))),
        \<lparr>sent = [probe_request, share_request ''9007199254740993''], streamed = []\<rparr>)"
proof -
  let ?v = "9007199254740993 :: int"
  let ?enva = "example_env 200 ''{}'' meta_ok
        [example_activity 9007199254740992 ''a'', example_activity 9007199254740993 ''b''] []"
  let ?envs = "example_env 200 ''{}'' meta_ok [] [example_share ''9007199254740993'']"
  let ?da = "example_query [''id'' \<mapsto> StringValue ''9007199254740993'']"
  let ?ds = "example_query [''id'' \<mapsto> Int64Value 9007199254740993]"
  let ?t1 = "no_trace\<lparr>sent := [probe_request]\<rparr>"
  let ?resp = "\<lparr>StatusCode = 200, Body = ''{}''\<rparr>"
  let ?ra = "\<lparr>Meta = meta_ok, Data =
      [example_activity 9007199254740992 ''a'', example_activity 9007199254740993 ''b'']\<rparr>"
  let ?rs = "\<lparr>Meta = meta_ok, Data = [example_share ''9007199254740993'']\<rparr>"
  have r: "- (2 ^ 63) \<le> ?v" "?v < 2 ^ 63" by simp_all
  have r': "- (2 ^ 63) \<le> (- 9223372036854775808 :: int)" "(- 9223372036854775808 :: int) < 2 ^ 63"
    by simp_all
  have f: "fmt_d ?v = ''9007199254740993''"
    by (simp add: fmt_d_def digits.simps digit_char_def)
  have f': "fmt_d (- 9223372036854775808) = ''-9223372036854775808''"
    by (simp add: fmt_d_def digits.simps digit_char_def)
  have ca: "GetClient ?enva no_trace (Connection ?da) = (Inr example_client, ?t1)"
    by (simp add: run_simps example_query_def probe_request_def)
  have cs: "GetClient ?envs no_trace (Connection ?ds) = (Inr example_client, ?t1)"
    by (simp add: run_simps example_query_def probe_request_def)
  have qa: "EqualsQuals ?da ''id'' = Some (StringValue (fmt_d ?v))"
    by (simp add: example_query_def f)
  have qs: "EqualsQuals ?ds ''id'' = Some (Int64Value ?v)"
    by (simp add: example_query_def)
  have ma: "MakeRequest ?enva ?t1 example_client ''GET''
             ''ocs/v2.php/apps/activity/api/v2/activity?format=json''
           = (Inr ?resp, \<lparr>sent = [probe_request, activity_request], streamed = []\<rparr>)"
    by (simp add: run_simps probe_request_def activity_request_def)
  have mg: "MakeRequest ?envs ?t1 example_client ''GET''
             (''ocs/v2.php/apps/files_sharing/api/v1/shares/'' @ fmt_d ?v @ ''?format=json'')
           = (Inr ?resp,
              \<lparr>sent = [probe_request, share_request ''9007199254740993''], streamed = []\<rparr>)"
    unfolding f by (simp add: run_simps probe_request_def share_request_def)
  have da: "decode_activities ?enva (Body ?resp) = Inr ?ra"
    by (simp add: example_env_def)
  have ds: "decode_shares ?envs (Body ?resp) = Inr ?rs"
    by (simp add: example_env_def)
  have sa: "Status (Meta ?ra) = ''ok''"
    by (simp add: meta_ok_def)
  have ss: "Status (Meta ?rs) = ''ok'' \<and> Data ?rs \<noteq> []"
    by (simp add: meta_ok_def)
  note p1 = identifier_exact[OF r, THEN conjunct1]
  note p2 = identifier_exact[OF r', THEN conjunct1]
  note ga = identifier_exact[OF r, THEN conjunct2, THEN conjunct1, rule_format,
      OF conjI[OF qa conjI[OF ca conjI[OF ma conjI[OF da sa]]]]]
  note gs = identifier_exact[OF r, THEN conjunct2, THEN conjunct2, rule_format,
      OF conjI[OF qs conjI[OF cs conjI[OF mg conjI[OF ds ss]]]]]
  from p1 p2 ga gs show ?thesis
    unfolding f f' by (simp add: example_activity_def)
qed

section \<open>GetConfig on degenerate connections\<close>

text \<open>
  Claim C10 says that \<open>GetConfig\<close> returns a non-nil configuration for every
  connection and never panics. \<open>GetConfig\<close> of connection_config.go never panics
  (\<open>GetConfig_never_panics\<close>) and returns a non-nil configuration unless the interface
  holds a nil \<^verbatim>\<open>*NextcloudConfig\<close> (\<open>GetConfig_not_nil\<close>); for that connection it
  returns the nil pointer, and \<open>NewNextcloudClient\<close> panics on reading its first field.
  The other \<open>GetConfig\<close> of the repository panics on a connection whose configuration
  has an unexpected type.
\<close>

theorem GetConfig_nil_pointer:
  "GetConfig (Some \<lparr>Config = ConfigPointer None\<rparr>) = Inr None
   \<and> NewNextcloudClient unreachable_env no_trace (Some \<lparr>Config = ConfigPointer None\<rparr>)
       = (Inl PanicNilDereference, no_trace)
   \<and> GetConfig_part_000 (Some \<lparr>Config = OtherType\<rparr>) = Inl PanicTypeAssertion"
  by (simp add: GetConfig_def GetConfig_part_000_def Config_of_def NewNextcloudClient_def)

end
